theory Spec2Isabelle
  imports Complex_Main
begin

section \<open>Python values, dictionaries and strings\<close>

text \<open>
  The agents exchange Python dictionaries whose values are strings, booleans, integers,
  \<open>None\<close>, lists and nested dictionaries. A dictionary is an association list (Python
  keeps insertion order); \<open>d.get(k)\<close> is \<open>None\<close> for a missing key.
  Strings are lists of 8-bit characters; the case conversions below act on ASCII letters,
  which is what the markers searched for by the agents consist of.
\<close>

datatype pyval =
    PNone
  | PBool bool
  | PInt int
  | PStr string
  | PList "pyval list"
  | PDict "(string \<times> pyval) list"

type_synonym pydict = "(string \<times> pyval) list"

text \<open>Exceptions that the modelled code can raise; \<open>OracleError\<close> carries \<open>str(e)\<close>
  of an exception raised by \<open>chat.send_message\<close>.\<close>

datatype error =
    AttributeError
  | TypeError
  | IndexError
  | KeyError
  | OSError
  | OracleError string

definition dict_get :: "pydict \<Rightarrow> string \<Rightarrow> pyval" where
  "dict_get d k = (case map_of d k of None \<Rightarrow> PNone | Some v \<Rightarrow> v)"

definition dict_get_default :: "pydict \<Rightarrow> string \<Rightarrow> pyval \<Rightarrow> pyval" where
  "dict_get_default d k dflt = (case map_of d k of None \<Rightarrow> dflt | Some v \<Rightarrow> v)"

text \<open>Truth value of a Python object in a condition.\<close>

fun truthy :: "pyval \<Rightarrow> bool" where
  "truthy PNone = False"
| "truthy (PBool b) = b"
| "truthy (PInt i) = (i \<noteq> 0)"
| "truthy (PStr s) = (s \<noteq> [])"
| "truthy (PList xs) = (xs \<noteq> [])"
| "truthy (PDict kvs) = (kvs \<noteq> [])"

text \<open>\<open>a or b\<close> on objects: the first operand when it is truthy, else the second.\<close>

definition py_or :: "pyval \<Rightarrow> pyval \<Rightarrow> pyval" where
  "py_or a b = (if truthy a then a else b)"

definition digit_char :: "nat \<Rightarrow> char" where
  "digit_char n = ''0123456789'' ! n"

function str_nat :: "nat \<Rightarrow> string" where
  "str_nat n = (if n < 10 then [digit_char n] else str_nat (n div 10) @ [digit_char (n mod 10)])"
  by pat_completeness auto
termination
  by (relation "measure id") auto

definition str_int :: "int \<Rightarrow> string" where
  "str_int i = (if i < 0 then ''-'' @ str_nat (nat (- i)) else str_nat (nat i))"

fun join :: "string \<Rightarrow> string list \<Rightarrow> string" where
  "join sep [] = []"
| "join sep [x] = x"
| "join sep (x # y # ys) = x @ sep @ join sep (y # ys)"

text \<open>
  \<open>repr\<close> of a value, as it appears inside the \<open>str\<close> of a list or dictionary. A string
  is put between single quotes; Python's escaping of quotes, backslashes and control
  characters inside it is not reproduced.
\<close>

primrec py_repr :: "pyval \<Rightarrow> string" where
  "py_repr PNone = ''None''"
| "py_repr (PBool b) = (if b then ''True'' else ''False'')"
| "py_repr (PInt i) = str_int i"
| "py_repr (PStr s) = [CHR 0x27] @ s @ [CHR 0x27]"
| "py_repr (PList xs) = ''['' @ join '', '' (map py_repr xs) @ '']''"
| "py_repr (PDict kvs) =
     ''{'' @ join '', ''
        (map (\<lambda>kv. [CHR 0x27] @ fst kv @ [CHR 0x27] @ '': '' @ snd kv)
           (map (map_prod id py_repr) kvs)) @ ''}''"

text \<open>\<open>str(v)\<close>, which is what an f-string interpolates.\<close>

definition py_str :: "pyval \<Rightarrow> string" where
  "py_str v = (case v of PStr s \<Rightarrow> s | _ \<Rightarrow> py_repr v)"

fun startswith :: "string \<Rightarrow> string \<Rightarrow> bool" where
  "startswith s [] = True"
| "startswith [] (p # ps) = False"
| "startswith (c # cs) (p # ps) = (c = p \<and> startswith cs ps)"

text \<open>\<open>needle in haystack\<close> on strings.\<close>

fun contains :: "string \<Rightarrow> string \<Rightarrow> bool" where
  "contains [] needle = (needle = [])"
| "contains (c # cs) needle = (startswith (c # cs) needle \<or> contains cs needle)"

definition lower_char :: "char \<Rightarrow> char" where
  "lower_char c =
     (case map_of (zip ''ABCDEFGHIJKLMNOPQRSTUVWXYZ'' ''abcdefghijklmnopqrstuvwxyz'') c of
        Some d \<Rightarrow> d | None \<Rightarrow> c)"

definition upper_char :: "char \<Rightarrow> char" where
  "upper_char c =
     (case map_of (zip ''abcdefghijklmnopqrstuvwxyz'' ''ABCDEFGHIJKLMNOPQRSTUVWXYZ'') c of
        Some d \<Rightarrow> d | None \<Rightarrow> c)"

definition lower :: "string \<Rightarrow> string" where
  "lower s = map lower_char s"

definition upper :: "string \<Rightarrow> string" where
  "upper s = map upper_char s"

text \<open>Characters removed by \<open>str.strip()\<close>: the white space of the Latin-1 range.\<close>

definition is_space :: "char \<Rightarrow> bool" where
  "is_space c = (c \<in> set [CHR 0x09, CHR 0x0A, CHR 0x0B, CHR 0x0C, CHR 0x0D, CHR 0x1C, CHR 0x1D,
                            CHR 0x1E, CHR 0x1F, CHR 0x20, CHR 0x85, CHR 0xA0])"

definition strip :: "string \<Rightarrow> string" where
  "strip s = rev (dropWhile is_space (rev (dropWhile is_space s)))"


section \<open>The reasoning channel\<close>

text \<open>
  A response of the reasoning service: the parts of its first candidate, and the value of
  its \<open>text\<close> property (computed by the client library, \<open>None\<close> when there is none).
  A part carries a function call, a text, or neither.
\<close>

record function_call =
  fc_name :: string
  fc_args :: pydict

record part =
  function_call :: "function_call option"
  part_text :: "string option"

record response =
  parts :: "part list"
  response_text :: "string option"

text \<open>
  The service is an arbitrary, possibly infinite, script: the \<open>n\<close>-th call of
  \<open>chat.send_message\<close> returns a response or raises an exception whose \<open>str\<close> is given.
  What the service answers may depend on what was sent in any way, so the message sent is
  not an argument: every dependence is one of the scripts.
\<close>

datatype send_result = Reply response | Raises string

type_synonym chat = "nat \<Rightarrow> send_result"

text \<open>
  An adapter object (\<open>execute_command\<close>): the result dictionary of the call, given the number
  of adapter calls made before it and the command.
\<close>

type_synonym executor = "nat \<Rightarrow> pydict \<Rightarrow> pydict"

datatype event = Sleep nat | SendMessage nat

text \<open>
  The effects of a run: the number of messages sent, the sleeps and sends in the order they
  happened, the commands handed to the adapters (tagged with the adapter), and the URLs
  probed with \<open>curl\<close>.
\<close>

record world =
  sent :: nat
  trace :: "event list"
  executed :: "(string \<times> pydict) list"
  probed :: "string list"

definition is_rate_limit :: "string \<Rightarrow> bool" where
  "is_rate_limit msg = (contains msg ''429'' \<or> contains msg ''Resource exhausted'')"

text \<open>\<open>_safe_send\<close>: the \<open>while retries > 0\<close> loop, entered with \<open>retries = 3\<close> and
  \<open>backoff = 10\<close>. \<open>Inr None\<close> is the \<open>return None\<close> after the loop.\<close>

function safe_send_loop :: "chat \<Rightarrow> nat \<Rightarrow> nat \<Rightarrow> world \<Rightarrow> (error + response option) \<times> world" where
  "safe_send_loop chat retries backoff w =
     (if retries > 0 then
        (let w1 = w\<lparr>trace := trace w @ [Sleep 2]\<rparr>;
             w2 = w1\<lparr>sent := Suc (sent w1), trace := trace w1 @ [SendMessage (sent w1)]\<rparr>
         in case chat (sent w1) of
              Reply r \<Rightarrow> (Inr (Some r), w2)
            | Raises msg \<Rightarrow>
                if is_rate_limit msg
                then safe_send_loop chat (retries - 1) (backoff * 2)
                       (w2\<lparr>trace := trace w2 @ [Sleep backoff]\<rparr>)
                else (Inl (OracleError msg), w2))
      else (Inr None, w))"
  by pat_completeness auto
termination
  by (relation "measure (\<lambda>(chat, retries, backoff, w). retries)") auto

definition safe_send :: "chat \<Rightarrow> world \<Rightarrow> (error + response option) \<times> world" where
  "safe_send chat w = safe_send_loop chat 3 10 w"


section \<open>The outcome of a specialist\<close>

text \<open>The dictionary a specialist returns. \<open>None\<close> in \<open>solution\<close> or
  \<open>suggested_specialist\<close> stands for a key that is absent or holds \<open>None\<close>.\<close>

record outcome =
  status :: string
  findings :: "string list"
  actions_taken :: "string list"
  solution :: "string option"
  suggested_specialist :: "string option"

definition outcome_invariant :: "outcome \<Rightarrow> bool" where
  "outcome_invariant out =
     ((solution out \<noteq> None) = (status out = ''RESOLVED'') \<and>
      (suggested_specialist out \<noteq> None) = (status out = ''NEEDS_HANDOFF''))"

text \<open>
  The part of the invariant that every path of the specialists keeps: a resolved outcome
  carries a solution, and a solution or a suggested specialist appears only in an outcome
  that is resolved or handed off.
\<close>

definition outcome_coherent :: "outcome \<Rightarrow> bool" where
  "outcome_coherent out =
     ((status out = ''RESOLVED'' \<longrightarrow> solution out \<noteq> None) \<and>
      (solution out \<noteq> None \<longrightarrow> status out = ''RESOLVED'' \<or> status out = ''NEEDS_HANDOFF'') \<and>
      (suggested_specialist out \<noteq> None \<longrightarrow> status out = ''RESOLVED'' \<or> status out = ''NEEDS_HANDOFF''))"

text \<open>The local variables of a tool-invocation loop, the exception that left it (if any),
  and the effects so far.\<close>

record loop_state =
  cur_response :: "response option"
  is_resolved :: bool
  found :: "string list"
  acted :: "string list"
  raised :: "error option"
  env :: world

definition max_steps :: nat where
  "max_steps = 5"

definition resolution_marker :: "string \<Rightarrow> bool" where
  "resolution_marker t = (contains t ''RESOLVED'' \<or> contains (lower t) ''fixed'')"


section \<open>The Linux specialist\<close>

definition arrow :: string where
  "arrow = [CHR 0xE2, CHR 0x86, CHR 0x92]"

definition replace_newlines :: "string \<Rightarrow> string" where
  "replace_newlines s = map (\<lambda>c. if c = CHR 0x0A then CHR 0x20 else c) s"

text \<open>
  The branch \<open>name == "run_linux_command"\<close>: the command is recorded, run through the
  compute adapter, and its result summarised. \<open>res['status']\<close> raises on a result without
  a status; slicing anything but a string or a list raises.
\<close>

definition linux_run_command :: "executor \<Rightarrow> pyval \<Rightarrow> pyval \<Rightarrow> pydict \<Rightarrow> loop_state \<Rightarrow> loop_state" where
  "linux_run_command executor zone vm_name args s =
     (let cmd = dict_get args ''command'';
          command = [(''action'', PStr ''execute_ssh_command''), (''zone'', zone),
                     (''instance_name'', vm_name), (''ssh_command'', cmd)];
          res = executor (length (executed (env s))) command;
          s1 = s\<lparr>acted := acted s @ [''Running: '' @ py_str cmd],
                 env := (env s)\<lparr>executed := executed (env s) @ [(''gce'', command)]\<rparr>\<rparr>
      in case map_of res ''status'' of
           None \<Rightarrow> s1\<lparr>raised := Some KeyError\<rparr>
         | Some st \<Rightarrow>
             if st = PStr ''SUCCESS'' then
               (case dict_get_default res ''output'' (PStr []) of
                  PStr out \<Rightarrow>
                    s1\<lparr>found := found s1 @
                       [''['' @ py_str cmd @ ''] '' @ arrow @ '' '' @
                        replace_newlines (take 150 out) @ ''...'']\<rparr>
                | PList xs \<Rightarrow> s1\<lparr>raised := Some AttributeError\<rparr>
                | _ \<Rightarrow> s1\<lparr>raised := Some TypeError\<rparr>)
             else if st = PStr ''SSH_FAILED'' then
               s1\<lparr>found := found s1 @
                    [''CRITICAL: Cannot SSH to VM - '' @
                     py_str (dict_get_default res ''message'' (PStr ''connection failed''))],
                  is_resolved := False\<rparr>
             else
               (case dict_get_default res ''message'' (PStr ''unknown'') of
                  PStr m \<Rightarrow>
                    s1\<lparr>found := found s1 @
                       [''['' @ py_str cmd @ ''] '' @ arrow @ '' ERROR: '' @ take 100 m]\<rparr>
                | PList xs \<Rightarrow>
                    s1\<lparr>found := found s1 @
                       [''['' @ py_str cmd @ ''] '' @ arrow @ '' ERROR: '' @
                        py_str (PList (take 100 xs))]\<rparr>
                | _ \<Rightarrow> s1\<lparr>raised := Some TypeError\<rparr>))"

text \<open>
  One pass of \<open>for part in parts\<close>. The flag is \<open>function_calls_found\<close>. A call of an
  unknown tool only queues an "Unknown tool" answer for the service.
\<close>

definition linux_part :: "executor \<Rightarrow> pyval \<Rightarrow> pyval \<Rightarrow> part \<Rightarrow> bool \<times> loop_state \<Rightarrow> bool \<times> loop_state" where
  "linux_part executor zone vm_name p fs =
     (case fs of (function_calls_found, s) \<Rightarrow>
        (case function_call p of
           Some fc \<Rightarrow>
             (True,
              if fc_name fc = ''run_linux_command''
              then linux_run_command executor zone vm_name (fc_args fc) s
              else s)
         | None \<Rightarrow>
             (case part_text p of
                None \<Rightarrow> (function_calls_found, s)
              | Some t \<Rightarrow>
                  if t = [] then (function_calls_found, s)
                  else (function_calls_found,
                        s\<lparr>found := found s @ [t],
                          is_resolved := (if resolution_marker t then True else is_resolved s)\<rparr>))))"

fun linux_parts :: "executor \<Rightarrow> pyval \<Rightarrow> pyval \<Rightarrow> part list \<Rightarrow> bool \<times> loop_state \<Rightarrow> bool \<times> loop_state" where
  "linux_parts executor zone vm_name [] fs = fs"
| "linux_parts executor zone vm_name (p # ps) fs =
     (let fs1 = linux_part executor zone vm_name p fs
      in if raised (snd fs1) \<noteq> None then fs1
         else linux_parts executor zone vm_name ps fs1)"

text \<open>
  The loop \<open>while response and step < max_steps\<close>. The result is the final value of
  \<open>step\<close>, which counts the iterations made, and the final state. An exception ends the
  loop with \<open>raised\<close> set.
\<close>

function linux_loop :: "chat \<Rightarrow> executor \<Rightarrow> pyval \<Rightarrow> pyval \<Rightarrow> nat \<Rightarrow> loop_state \<Rightarrow> nat \<times> loop_state" where
  "linux_loop chat executor zone vm_name step s =
     (case cur_response s of
        None \<Rightarrow> (step, s)
      | Some r \<Rightarrow>
          if step < max_steps then
            (let fs = linux_parts executor zone vm_name (parts r) (False, s)
             in if raised (snd fs) \<noteq> None then (Suc step, snd fs)
                else if fst fs then
                  (case safe_send chat (env (snd fs)) of
                     (Inl e, w) \<Rightarrow> (Suc step, (snd fs)\<lparr>raised := Some e, env := w\<rparr>)
                   | (Inr resp, w) \<Rightarrow>
                       linux_loop chat executor zone vm_name (Suc step)
                         ((snd fs)\<lparr>cur_response := resp, env := w\<rparr>))
                else (Suc step, snd fs))
          else (step, s))"
  by pat_completeness auto
termination
  by (relation "measure (\<lambda>(chat, executor, zone, vm_name, step, s). max_steps - step)") auto

text \<open>The dictionary built by the \<open>return\<close> statement; \<open>response.text\<close> on \<open>None\<close> raises.\<close>

definition linux_outcome :: "loop_state \<Rightarrow> error + outcome" where
  "linux_outcome s =
     (if is_resolved s then
        (case cur_response s of
           None \<Rightarrow> Inl AttributeError
         | Some r \<Rightarrow>
             Inr \<lparr>status = ''RESOLVED'', findings = found s, actions_taken = acted s,
                  solution = response_text r, suggested_specialist = None\<rparr>)
      else
        Inr \<lparr>status = ''NEEDS_HANDOFF'', findings = found s, actions_taken = acted s,
             solution = None, suggested_specialist = Some ''gcp_platform''\<rparr>)"

text \<open>\<open>LinuxSpecialist.troubleshoot\<close>, from the first message on.\<close>

definition linux_run :: "chat \<Rightarrow> executor \<Rightarrow> pydict \<Rightarrow> world \<Rightarrow> nat \<times> loop_state" where
  "linux_run chat executor context w =
     (let vm_name = dict_get_default context ''resource_name'' (PStr ''unknown'');
          zone = dict_get_default context ''zone'' (PStr ''unknown'');
          s0 = \<lparr>cur_response = None, is_resolved = False, found = [], acted = [],
                raised = None, env = w\<rparr>
      in case safe_send chat w of
           (Inl e, w1) \<Rightarrow> (0, s0\<lparr>raised := Some e, env := w1\<rparr>)
         | (Inr resp, w1) \<Rightarrow>
             linux_loop chat executor zone vm_name 0 (s0\<lparr>cur_response := resp, env := w1\<rparr>))"

definition linux_troubleshoot :: "chat \<Rightarrow> executor \<Rightarrow> pydict \<Rightarrow> world \<Rightarrow> (error + outcome) \<times> world" where
  "linux_troubleshoot chat executor context w =
     (let s = snd (linux_run chat executor context w)
      in case raised s of
           Some e \<Rightarrow> (Inl e, env s)
         | None \<Rightarrow> (linux_outcome s, env s))"


section \<open>The cloud platform agent: the tool-invocation loop\<close>

text \<open>A call of \<open>execute_command\<close> on an adapter: the command is logged under the
  adapter's tag.\<close>

definition execute :: "executor \<Rightarrow> string \<Rightarrow> pydict \<Rightarrow> world \<Rightarrow> pydict \<times> world" where
  "execute ex tag command w =
     (ex (length (executed w)) command, w\<lparr>executed := executed w @ [(tag, command)]\<rparr>)"

text \<open>
  The dispatch on the name of the requested tool in \<open>_run_agent_loop\<close>; \<open>region\<close> is
  \<open>config['gcp']['region']\<close>. Any other name leaves "Error: Unknown tool" as the answer
  for the service and records nothing.
\<close>

definition gcp_dispatch :: "executor \<Rightarrow> executor \<Rightarrow> pyval \<Rightarrow> function_call \<Rightarrow> loop_state \<Rightarrow> loop_state" where
  "gcp_dispatch gke_executor gcs_executor region fc s =
     (let args = fc_args fc in
      if fc_name fc = ''manage_gke'' then
        (let action = dict_get args ''action'';
             target = py_or (py_or (dict_get args ''pod_name'') (dict_get args ''deployment_name''))
                        (PStr ''N/A'');
             cmd = [(''action'', action),
                    (''namespace'', dict_get_default args ''namespace'' (PStr ''default'')),
                    (''pod_name'', dict_get args ''pod_name''),
                    (''deployment_name'', dict_get args ''deployment_name''),
                    (''replicas'', dict_get args ''replicas''),
                    (''cluster_name'', dict_get args ''cluster_name''),
                    (''location'', dict_get_default args ''location'' region)]
         in case execute gke_executor ''gke'' cmd (env s) of
              (res, w) \<Rightarrow>
                s\<lparr>acted := acted s @ [''GKE: '' @ py_str action @ '' on '' @ py_str target],
                  found := found s @
                    [''GKE '' @ py_str action @ '': '' @ py_str (dict_get res ''status'')],
                  env := w\<rparr>)
      else if fc_name fc = ''manage_gcs'' then
        (let action = dict_get args ''action'';
             bucket = dict_get args ''bucket_name'';
             cmd = [(''action'', action), (''bucket_name'', bucket),
                    (''prefix'', dict_get args ''prefix'')]
         in case execute gcs_executor ''gcs'' cmd (env s) of
              (res, w) \<Rightarrow>
                s\<lparr>acted := acted s @ [''GCS: '' @ py_str action @ '' on '' @ py_str bucket],
                  found := found s @
                    [''GCS '' @ py_str action @ '': '' @ py_str (dict_get res ''status'')],
                  env := w\<rparr>)
      else s)"

text \<open>
  The loop of \<open>_run_agent_loop\<close>. Only the first part of a response is looked at;
  \<open>parts[0]\<close> of an empty list raises, and so does the search in a \<open>response.text\<close> that
  is \<open>None\<close>.
\<close>

function gcp_loop :: "chat \<Rightarrow> executor \<Rightarrow> executor \<Rightarrow> pyval \<Rightarrow> nat \<Rightarrow> loop_state \<Rightarrow> nat \<times> loop_state" where
  "gcp_loop chat gke_executor gcs_executor region step s =
     (case cur_response s of
        None \<Rightarrow> (step, s)
      | Some r \<Rightarrow>
          if step < max_steps then
            (case parts r of
               [] \<Rightarrow> (Suc step, s\<lparr>raised := Some IndexError\<rparr>)
             | p # ps \<Rightarrow>
                 (case function_call p of
                    Some fc \<Rightarrow>
                      (let s1 = gcp_dispatch gke_executor gcs_executor region fc s
                       in case safe_send chat (env s1) of
                            (Inl e, w) \<Rightarrow> (Suc step, s1\<lparr>raised := Some e, env := w\<rparr>)
                          | (Inr resp, w) \<Rightarrow>
                              gcp_loop chat gke_executor gcs_executor region (Suc step)
                                (s1\<lparr>cur_response := resp, env := w\<rparr>))
                  | None \<Rightarrow>
                      (case response_text r of
                         None \<Rightarrow> (Suc step, s\<lparr>raised := Some TypeError\<rparr>)
                       | Some t \<Rightarrow>
                           (Suc step,
                            s\<lparr>found := found s @ [t],
                              is_resolved :=
                                (if resolution_marker t then True else is_resolved s)\<rparr>))))
          else (step, s))"
  by pat_completeness auto
termination
  by (relation "measure (\<lambda>(chat, gke, gcs, region, step, s). max_steps - step)") auto

definition gcp_outcome :: "loop_state \<Rightarrow> outcome" where
  "gcp_outcome s =
     \<lparr>status = (if is_resolved s then ''RESOLVED'' else ''NEEDS_HANDOFF''),
      findings = found s,
      actions_taken = acted s,
      solution = (if is_resolved s
                  then (case cur_response s of None \<Rightarrow> None | Some r \<Rightarrow> response_text r)
                  else None),
      suggested_specialist = Some ''linux_agent''\<rparr>"

definition gcp_run :: "chat \<Rightarrow> executor \<Rightarrow> executor \<Rightarrow> pyval \<Rightarrow> world \<Rightarrow> nat \<times> loop_state" where
  "gcp_run chat gke_executor gcs_executor region w =
     (let s0 = \<lparr>cur_response = None, is_resolved = False, found = [], acted = [],
                raised = None, env = w\<rparr>
      in case safe_send chat w of
           (Inl e, w1) \<Rightarrow> (0, s0\<lparr>raised := Some e, env := w1\<rparr>)
         | (Inr resp, w1) \<Rightarrow>
             gcp_loop chat gke_executor gcs_executor region 0
               (s0\<lparr>cur_response := resp, env := w1\<rparr>))"

text \<open>When the loop has set \<open>is_resolved\<close>, the response at hand has a text.\<close>

definition resolved_has_text :: "loop_state \<Rightarrow> bool" where
  "resolved_has_text s =
     (is_resolved s \<longrightarrow> (\<exists>r t. cur_response s = Some r \<and> response_text r = Some t))"

text \<open>\<open>GCPAgent._run_agent_loop\<close>.\<close>

definition run_agent_loop :: "chat \<Rightarrow> executor \<Rightarrow> executor \<Rightarrow> pyval \<Rightarrow> world \<Rightarrow> (error + outcome) \<times> world" where
  "run_agent_loop chat gke_executor gcs_executor region w =
     (let s = snd (gcp_run chat gke_executor gcs_executor region w)
      in case raised s of
           Some e \<Rightarrow> (Inl e, env s)
         | None \<Rightarrow> (Inr (gcp_outcome s), env s))"


section \<open>The cloud platform agent: the deterministic compute sub-protocol\<close>

text \<open>The commands that \<open>_handle_gce\<close> hands to the compute adapter.\<close>

definition instance_command :: "string \<Rightarrow> pyval \<Rightarrow> pyval \<Rightarrow> pydict" where
  "instance_command action vm_name zone =
     [(''action'', PStr action), (''instance_name'', vm_name), (''zone'', zone)]"

definition firewall_rule_command :: "string \<Rightarrow> string \<Rightarrow> pyval \<Rightarrow> pydict" where
  "firewall_rule_command rule_name port network =
     [(''action'', PStr ''create_firewall_rule''), (''rule_name'', PStr rule_name),
      (''ports'', PList [PStr port]), (''network'', network)]"

definition add_finding :: "string \<Rightarrow> outcome \<Rightarrow> outcome" where
  "add_finding f out = out\<lparr>findings := findings out @ [f]\<rparr>"

definition add_action :: "string \<Rightarrow> outcome \<Rightarrow> outcome" where
  "add_action a out = out\<lparr>actions_taken := actions_taken out @ [a]\<rparr>"

definition py_type_name :: "pyval \<Rightarrow> string" where
  "py_type_name v =
     (case v of PNone \<Rightarrow> ''NoneType'' | PBool b \<Rightarrow> ''bool'' | PInt i \<Rightarrow> ''int''
      | PStr s \<Rightarrow> ''str'' | PList xs \<Rightarrow> ''list'' | PDict kvs \<Rightarrow> ''dict'')"

text \<open>Step 2 of \<open>_handle_gce\<close>: the instance is \<open>TERMINATED\<close> or \<open>STOPPED\<close>.\<close>

definition gce_stopped :: "executor \<Rightarrow> pyval \<Rightarrow> pyval \<Rightarrow> pyval \<Rightarrow> outcome \<Rightarrow> world \<Rightarrow> outcome \<times> world" where
  "gce_stopped gce_executor vm_name zone instance_status out w =
     (let out1 = add_finding (''CRITICAL: VM is '' @ py_str instance_status @ ''!'') out
      in case execute gce_executor ''gce''
                (instance_command ''start_instance'' vm_name zone) w of
           (start_result, w1) \<Rightarrow>
             if dict_get start_result ''status'' = PStr ''SUCCESS'' then
               ((add_finding ''VM has been started. Need to re-check state after boot.''
                   (add_action (''Started VM '' @ py_str vm_name) out1))
                  \<lparr>status := ''NEEDS_HANDOFF'',
                   solution := Some (''Started VM '' @ py_str vm_name @
                     ''. Please re-discover to check external IP and continue diagnosis.''),
                   suggested_specialist := Some ''discovery_agent''\<rparr>, w1)
             else
               ((add_finding (''Failed to start VM: '' @ py_str (dict_get start_result ''message'')) out1)
                  \<lparr>status := ''UNRESOLVED''\<rparr>, w1))"

text \<open>Step 3, first half: the instance runs and the context holds no external address.\<close>

definition gce_assign_ip :: "executor \<Rightarrow> pyval \<Rightarrow> pyval \<Rightarrow> outcome \<Rightarrow> world \<Rightarrow> outcome \<times> world" where
  "gce_assign_ip gce_executor vm_name zone out w =
     (let out1 = add_finding ''VM is RUNNING but has NO EXTERNAL IP'' out
      in case execute gce_executor ''gce''
                (instance_command ''add_external_ip'' vm_name zone) w of
           (ip_result, w1) \<Rightarrow>
             if dict_get ip_result ''status'' = PStr ''SUCCESS'' then
               (let new_ip = dict_get_default ip_result ''external_ip'' (PStr ''assigned'')
                in ((add_action (''Assigned external IP: '' @ py_str new_ip) out1)
                      \<lparr>status := ''RESOLVED'',
                       solution := Some (''Assigned external IP '' @ py_str new_ip @ '' to VM'')\<rparr>, w1))
             else
               ((add_finding (''Failed to assign IP: '' @ py_str (dict_get ip_result ''message'')) out1)
                  \<lparr>status := ''UNRESOLVED''\<rparr>, w1))"

text \<open>
  One of the three blocks "create the missing firewall rule": when the port is not allowed,
  two findings are logged and a rule for the port is requested; the flag is
  \<open>firewall_fixed\<close>. The blocks differ in their texts, the rule name and the port.
\<close>

definition gce_create_rule ::
  "executor \<Rightarrow> pyval \<Rightarrow> string \<Rightarrow> string \<Rightarrow> string \<Rightarrow> string \<Rightarrow> string \<Rightarrow> pyval \<Rightarrow>
   bool \<times> outcome \<times> world \<Rightarrow> bool \<times> outcome \<times> world" where
  "gce_create_rule gce_executor allowed blocking attempting rule_name port failed network st =
     (case st of (firewall_fixed, out, w) \<Rightarrow>
        if \<not> truthy allowed then
          (let out1 = add_finding attempting (add_finding blocking out)
           in case execute gce_executor ''gce''
                     (firewall_rule_command rule_name port network) w of
                (create_result, w1) \<Rightarrow>
                  if dict_get create_result ''status'' = PStr ''SUCCESS'' then
                    (True,
                     add_finding (''SUCCESS: '' @ py_str (dict_get create_result ''message''))
                       (add_action (''Created firewall rule: '' @ rule_name) out1),
                     w1)
                  else
                    (firewall_fixed,
                     add_finding (failed @ py_str (dict_get create_result ''message'')) out1,
                     w1))
        else st)"

text \<open>The tail of \<open>_handle_gce\<close>: "if we get here, the issue is likely at OS level".\<close>

definition gce_handoff :: "outcome \<Rightarrow> outcome" where
  "gce_handoff out =
     (add_finding ''Issue is likely at OS/application level.'' out)
       \<lparr>suggested_specialist := Some ''linux_agent'', status := ''NEEDS_HANDOFF''\<rparr>"

text \<open>
  The HTTP health check. \<open>curl\<close> gives the standard output of the probe of a URL, or the
  text of the exception that \<open>subprocess.run\<close> raised.
\<close>

definition gce_health_check :: "(string \<Rightarrow> string + string) \<Rightarrow> string \<Rightarrow> outcome \<Rightarrow> world \<Rightarrow> outcome \<times> world" where
  "gce_health_check curl external_ip out w =
     (let out1 = add_finding (''Performing HTTP health check on '' @ external_ip @ ''...'')
                   (add_finding ''Firewall rules OK: HTTP: allowed, HTTPS: allowed'' out);
          url = ''http://'' @ external_ip;
          w1 = w\<lparr>probed := probed w @ [url]\<rparr>
      in case curl url of
           Inl e \<Rightarrow> (gce_handoff (add_finding (''HTTP health check failed: '' @ e) out1), w1)
         | Inr stdout \<Rightarrow>
             (let http_code = strip stdout
              in if http_code \<noteq> [] \<and> (startswith http_code ''2'' \<or> startswith http_code ''3'') then
                   ((add_finding ''Web server is accessible from external network!''
                       (add_finding (''HTTP health check PASSED! Status code: '' @ http_code) out1))
                      \<lparr>status := ''RESOLVED'',
                       solution := Some (''Web server is accessible at http://'' @ external_ip @
                         '' (HTTP '' @ http_code @
                         ''). The reported incident may have been temporary or has already been resolved.'')\<rparr>,
                    w1)
                 else (gce_handoff (add_finding (''HTTP health check returned: '' @ http_code) out1), w1)))"


text \<open>
  Step 3, second half: the instance runs with an external address. The firewall is checked,
  a rule is requested for each of SSH, HTTP and HTTPS that is not allowed, and when none
  was created the health check or the hand-off follows.
\<close>

definition gce_firewall ::
  "executor \<Rightarrow> (string \<Rightarrow> string + string) \<Rightarrow> pyval \<Rightarrow> pyval \<Rightarrow> string \<Rightarrow> outcome \<Rightarrow> world \<Rightarrow> outcome \<times> world" where
  "gce_firewall gce_executor curl vm_name zone external_ip out w =
     (let out1 = add_finding (''VM is RUNNING with external IP: '' @ external_ip) out
      in case execute gce_executor ''gce''
                (instance_command ''check_firewall_rules'' vm_name zone) w of
           (fw_result, w1) \<Rightarrow>
             if dict_get fw_result ''status'' = PStr ''SUCCESS'' then
               (let http_allowed = dict_get_default fw_result ''http_allowed'' (PBool False);
                    https_allowed = dict_get_default fw_result ''https_allowed'' (PBool False);
                    ssh_allowed = dict_get_default fw_result ''ssh_allowed'' (PBool False);
                    network = dict_get_default fw_result ''network'' (PStr ''default'');
                    st1 = gce_create_rule gce_executor ssh_allowed
                            ''FIREWALL BLOCKING SSH (Port 22)! SSH BLOCKED''
                            ''Attempting to create allow-ssh firewall rule...''
                            ''allow-ssh'' ''22'' ''Failed to create SSH rule: '' network
                            (False, out1, w1);
                    st2 = gce_create_rule gce_executor http_allowed
                            (''FIREWALL BLOCKING HTTP! HTTP: BLOCKED, HTTPS: '' @
                               (if truthy https_allowed then ''allowed'' else ''BLOCKED''))
                            ''Attempting to create allow-http firewall rule...''
                            ''allow-http'' ''80'' ''Failed to create HTTP rule: '' network st1;
                    st3 = gce_create_rule gce_executor https_allowed
                            ''FIREWALL BLOCKING HTTPS!''
                            ''Attempting to create allow-https firewall rule...''
                            ''allow-https'' ''443'' ''Failed to create HTTPS rule: '' network st2
                in case st3 of
                     (firewall_fixed, out2, w2) \<Rightarrow>
                       if firewall_fixed then
                         (out2\<lparr>status := ''RESOLVED'',
                               solution := Some ''Created firewall rules to allow access (SSH/HTTP/HTTPS)'',
                               suggested_specialist := Some ''linux_agent''\<rparr>, w2)
                       else if truthy http_allowed \<and> truthy https_allowed then
                         gce_health_check curl external_ip out2 w2
                       else (gce_handoff out2, w2))
             else
               (gce_handoff
                  (add_finding (''Could not check firewall: '' @ py_str (dict_get fw_result ''message''))
                     out1), w1))"

text \<open>
  \<open>GCPAgent._handle_gce\<close>. The adapter never raises (it turns every exception into an
  \<open>ERROR\<close> result), so the only exception the \<open>try\<close> block can see is \<open>.strip()\<close> on an
  external address that is not a string; the handler then logs it and sets \<open>ERROR\<close>.
  An instance status other than stopped or running leaves the block with the outcome
  still \<open>INVESTIGATING\<close>.
\<close>

definition handle_gce :: "executor \<Rightarrow> (string \<Rightarrow> string + string) \<Rightarrow> pydict \<Rightarrow> world \<Rightarrow> outcome \<times> world" where
  "handle_gce gce_executor curl context w =
     (let vm_name = dict_get_default context ''resource_name'' (PStr []);
          zone = dict_get_default context ''zone'' (PStr []);
          final_output = \<lparr>status = ''INVESTIGATING'', findings = [], actions_taken = [],
                          solution = None, suggested_specialist = None\<rparr>
      in if \<not> truthy vm_name \<or> \<not> truthy zone then
           ((add_finding ''Missing VM name or zone in context'' final_output)
              \<lparr>status := ''NEEDS_HANDOFF'', suggested_specialist := Some ''linux_agent''\<rparr>, w)
         else
           (case execute gce_executor ''gce''
                   (instance_command ''get_instance_info'' vm_name zone) w of
              (status_result, w1) \<Rightarrow>
                if dict_get status_result ''status'' \<noteq> PStr ''SUCCESS'' then
                  ((add_finding (''Could not get VM status: '' @ py_str (dict_get status_result ''message''))
                      final_output)\<lparr>status := ''NEEDS_HANDOFF''\<rparr>, w1)
                else
                  (let instance_status = dict_get_default status_result ''instance_status'' (PStr ''UNKNOWN'');
                       out1 = add_finding (''VM Status: '' @ py_str instance_status) final_output
                   in if instance_status = PStr ''TERMINATED'' \<or> instance_status = PStr ''STOPPED'' then
                        gce_stopped gce_executor vm_name zone instance_status out1 w1
                      else if instance_status = PStr ''RUNNING'' then
                        (let external_ip = dict_get context ''external_ip''
                         in if \<not> truthy external_ip \<or> external_ip = PStr ''None'' then
                              gce_assign_ip gce_executor vm_name zone out1 w1
                            else
                              (case external_ip of
                                 PStr ip \<Rightarrow>
                                   if strip ip = [] then gce_assign_ip gce_executor vm_name zone out1 w1
                                   else gce_firewall gce_executor curl vm_name zone ip out1 w1
                               | _ \<Rightarrow>
                                   ((add_finding
                                       (''Error: '' @ [CHR 0x27] @ py_type_name external_ip @ [CHR 0x27] @
                                        '' object has no attribute '' @ [CHR 0x27] @ ''strip'' @ [CHR 0x27])
                                       out1)\<lparr>status := ''ERROR''\<rparr>, w1)))
                      else (out1, w1))))"

text \<open>
  \<open>GCPAgent.troubleshoot\<close>: the route on the resource type. The Kubernetes and the storage
  handler both end in \<open>_run_agent_loop\<close>; they differ in the prompt and the tools offered
  to the service.
\<close>

definition gcp_troubleshoot ::
  "chat \<Rightarrow> executor \<Rightarrow> executor \<Rightarrow> executor \<Rightarrow> (string \<Rightarrow> string + string) \<Rightarrow> pyval \<Rightarrow> pydict \<Rightarrow> world \<Rightarrow>
   (error + outcome) \<times> world" where
  "gcp_troubleshoot chat gce_executor gke_executor gcs_executor curl region context w =
     (let resource_type = dict_get_default context ''resource_type'' (PStr ''GCE'')
      in if resource_type \<in> set [PStr ''GKE'', PStr ''POD'', PStr ''DEPLOYMENT'', PStr ''KUBERNETES''] then
           run_agent_loop chat gke_executor gcs_executor region w
         else if resource_type \<in> set [PStr ''GCS'', PStr ''BUCKET'', PStr ''STORAGE''] then
           run_agent_loop chat gke_executor gcs_executor region w
         else
           (case handle_gce gce_executor curl context w of (out, w1) \<Rightarrow> (Inr out, w1)))"


section \<open>The adapters\<close>

text \<open>
  The methods of an adapter that talk to the cloud are its \<open>backend\<close>: given the method's
  name and arguments, the result dictionary it returns or the text of the exception it
  raises. \<open>execute_command\<close> returns its result together with the backend methods it
  invoked, in order; an empty list means that nothing was done.
\<close>

type_synonym backend = "string \<Rightarrow> pyval list \<Rightarrow> string + pydict"

type_synonym invocation = "string \<times> pyval list"

definition invoke :: "backend \<Rightarrow> string \<Rightarrow> pyval list \<Rightarrow> string \<Rightarrow> pydict \<times> invocation list" where
  "invoke backend method args prefix =
     (case backend method args of
        Inr res \<Rightarrow> (res, [(method, args)])
      | Inl e \<Rightarrow> ([(''status'', PStr ''ERROR''), (''message'', PStr (prefix @ e))], [(method, args)]))"

definition dry_run_result :: "pyval \<Rightarrow> pydict \<Rightarrow> pydict" where
  "dry_run_result action command =
     [(''status'', PStr ''DRY_RUN''), (''message'', PStr (''Would execute: '' @ py_str action)),
      (''command'', PDict command)]"

definition unknown_action :: "pyval \<Rightarrow> pydict" where
  "unknown_action action =
     [(''status'', PStr ''ERROR''), (''message'', PStr (''Unknown action: '' @ py_str action))]"

definition read_only_actions :: "string list" where
  "read_only_actions =
     [''get_instance_info'', ''get_serial_port_output'', ''check_guest_metrics'',
      ''get_instance_by_ip'', ''get_disk_info'']"

definition write_actions :: "string list" where
  "write_actions =
     [''restart_instance'', ''stop_instance'', ''start_instance'', ''reset_instance'',
      ''execute_ssh_command'', ''add_external_ip'', ''create_firewall_rule'', ''resize_disk'']"

text \<open>\<open>GCEExecutorTool.execute_command\<close>. The list \<open>read_only_actions\<close> is declared by the
  source and not consulted.\<close>

definition gce_execute_command :: "bool \<Rightarrow> backend \<Rightarrow> pydict \<Rightarrow> pydict \<times> invocation list" where
  "gce_execute_command dry_run backend command =
     (let action = dict_get command ''action''
      in if dry_run \<and> action \<in> set (map PStr write_actions) then
           (dry_run_result action command, [])
         else
         if action = PStr ''restart_instance'' then
           invoke backend ''_restart_instance'' [dict_get command ''zone'', dict_get command ''instance_name''] ''Execution failed: ''
         else if action = PStr ''stop_instance'' then
           invoke backend ''_stop_instance'' [dict_get command ''zone'', dict_get command ''instance_name''] ''Execution failed: ''
         else if action = PStr ''start_instance'' then
           invoke backend ''_start_instance'' [dict_get command ''zone'', dict_get command ''instance_name''] ''Execution failed: ''
         else if action = PStr ''get_instance_info'' then
           invoke backend ''_get_instance_info'' [dict_get command ''zone'', dict_get command ''instance_name''] ''Execution failed: ''
         else if action = PStr ''reset_instance'' then
           invoke backend ''_reset_instance'' [dict_get command ''zone'', dict_get command ''instance_name''] ''Execution failed: ''
         else if action = PStr ''execute_ssh_command'' then
           invoke backend ''_execute_ssh_command'' [dict_get command ''zone'', dict_get command ''instance_name'', dict_get command ''ssh_command''] ''Execution failed: ''
         else if action = PStr ''get_serial_port_output'' then
           invoke backend ''_get_serial_port_output'' [dict_get command ''zone'', dict_get command ''instance_name''] ''Execution failed: ''
         else if action = PStr ''check_guest_metrics'' then
           invoke backend ''_check_guest_metrics'' [dict_get command ''zone'', dict_get command ''instance_name''] ''Execution failed: ''
         else if action = PStr ''get_instance_by_ip'' then
           invoke backend ''get_instance_by_ip'' [dict_get command ''ip_address''] ''Execution failed: ''
         else if action = PStr ''add_external_ip'' then
           invoke backend ''_add_external_ip'' [dict_get command ''zone'', dict_get command ''instance_name''] ''Execution failed: ''
         else if action = PStr ''check_firewall_rules'' then
           invoke backend ''_check_firewall_rules'' [dict_get command ''instance_name'', dict_get command ''zone''] ''Execution failed: ''
         else if action = PStr ''create_firewall_rule'' then
           invoke backend ''_create_firewall_rule'' [dict_get command ''rule_name'', dict_get command ''ports'', dict_get command ''network''] ''Execution failed: ''
         else if action = PStr ''get_disk_info'' then
           invoke backend ''_get_disk_info'' [dict_get command ''zone'', dict_get command ''disk_name''] ''Execution failed: ''
         else if action = PStr ''resize_disk'' then
           invoke backend ''_resize_disk'' [dict_get command ''zone'', dict_get command ''disk_name'', dict_get command ''new_size_gb''] ''Execution failed: ''
         else (unknown_action action, []))"

text \<open>\<open>GKEExecutorTool.execute_command\<close>.\<close>

definition gke_execute_command :: "bool \<Rightarrow> backend \<Rightarrow> pydict \<Rightarrow> pydict \<times> invocation list" where
  "gke_execute_command dry_run backend command =
     (let action = dict_get command ''action''
      in if dry_run then
           (dry_run_result action command, [])
         else
         if action = PStr ''get_cluster_info'' then
           invoke backend ''_get_cluster_info'' [dict_get command ''location'', dict_get command ''cluster_name''] []
         else if action = PStr ''get_node_pools'' then
           invoke backend ''_get_node_pools'' [dict_get command ''location'', dict_get command ''cluster_name''] []
         else if action = PStr ''set_node_pool_size'' then
           invoke backend ''_set_node_pool_size'' [dict_get command ''location'', dict_get command ''cluster_name'', dict_get command ''node_pool_name'', dict_get command ''node_count''] []
         else if action = PStr ''get_cluster_status'' then
           invoke backend ''_get_cluster_status'' [dict_get command ''location'', dict_get command ''cluster_name''] []
         else if action = PStr ''get_pod_details'' then
           invoke backend ''_get_pod_details'' [dict_get command ''location'', dict_get command ''cluster_name'', dict_get command ''namespace'', dict_get command ''pod_name''] []
         else if action = PStr ''get_pod_logs'' then
           invoke backend ''_get_pod_logs'' [dict_get command ''location'', dict_get command ''cluster_name'', dict_get command ''namespace'', dict_get command ''pod_name''] []
         else if action = PStr ''get_recent_events'' then
           invoke backend ''_get_recent_events'' [dict_get command ''location'', dict_get command ''cluster_name'', dict_get command ''namespace''] []
         else if action = PStr ''find_pod_namespace'' then
           invoke backend ''_find_pod_namespace'' [dict_get command ''location'', dict_get command ''cluster_name'', dict_get command ''pod_name''] []
         else if action = PStr ''delete_pod'' then
           invoke backend ''_delete_pod'' [dict_get command ''location'', dict_get command ''cluster_name'', dict_get command ''namespace'', dict_get command ''pod_name''] []
         else if action = PStr ''restart_deployment'' then
           invoke backend ''_restart_deployment'' [dict_get command ''location'', dict_get command ''cluster_name'', dict_get command ''namespace'', dict_get command ''deployment_name''] []
         else if action = PStr ''scale_deployment'' then
           invoke backend ''_scale_deployment'' [dict_get command ''location'', dict_get command ''cluster_name'', dict_get command ''namespace'', dict_get command ''deployment_name'', dict_get command ''replicas''] []
         else if action = PStr ''list_deployments'' then
           invoke backend ''_list_deployments'' [dict_get command ''location'', dict_get command ''cluster_name'', dict_get command ''namespace''] []
         else (unknown_action action, []))"

text \<open>\<open>GCSExecutorTool.execute_command\<close>.\<close>

definition gcs_execute_command :: "bool \<Rightarrow> backend \<Rightarrow> pydict \<Rightarrow> pydict \<times> invocation list" where
  "gcs_execute_command dry_run backend command =
     (let action = dict_get command ''action''
      in if dry_run \<and>
            action \<notin> set [PStr ''get_bucket_metadata'', PStr ''list_bucket_contents'', PStr ''get_bucket_iam''] then
           (dry_run_result action command, [])
         else
         if action = PStr ''get_bucket_metadata'' then
           invoke backend ''_get_bucket_metadata'' [dict_get command ''bucket_name''] []
         else if action = PStr ''get_bucket_iam'' then
           invoke backend ''_get_bucket_iam'' [dict_get command ''bucket_name''] []
         else if action = PStr ''list_bucket_contents'' then
           invoke backend ''_list_bucket_contents'' [dict_get command ''bucket_name'', dict_get command ''prefix''] []
         else if action = PStr ''enable_public_access_prevention'' then
           invoke backend ''_enable_public_access_prevention'' [dict_get command ''bucket_name''] []
         else (unknown_action action, []))"


section \<open>The episodic memory store\<close>

text \<open>
  A stored incident. A Python float is modelled by the real number it denotes. The
  arithmetic of \<open>feedback\<close> is rounded: \<open>feedback\<close> takes the rounding \<open>fl\<close> as a
  parameter, \<open>fl x\<close> being the float that represents the real \<open>x\<close> (for Python's doubles
  the double nearest to \<open>x\<close>); with the identity for \<open>fl\<close> the arithmetic is exact. The
  arithmetic of \<open>search\<close> is exact. A date is the number of microseconds on the time
  line of \<open>datetime.now()\<close>.
\<close>

record memory_entry =
  mem_id :: string
  timestamp :: int
  symptoms :: "string list"
  diagnosis :: string
  mem_solution :: string
  specialists :: "string list"
  cost_impact :: real
  confidence :: real
  success_count :: int
  failure_count :: int
  last_used :: "int option"

text \<open>
  The store: the list held in memory, the list last written to the file (\<open>None\<close> when
  there is no file), whether the file can be opened for writing, and the number of writes
  made.
\<close>

record memory_store =
  memories :: "memory_entry list"
  on_disk :: "memory_entry list option"
  writable :: bool
  saves :: nat

text \<open>\<open>save\<close>: an exception is returned next to the store as it is when it is raised.\<close>

definition save :: "memory_store \<Rightarrow> error option \<times> memory_store" where
  "save st =
     (if writable st then (None, st\<lparr>on_disk := Some (memories st), saves := Suc (saves st)\<rparr>)
      else (Some OSError, st))"

text \<open>\<open>int(datetime.now().timestamp())\<close>: whole seconds, rounded towards zero.\<close>

definition epoch_seconds :: "int \<Rightarrow> int" where
  "epoch_seconds now = (if now < 0 then - ((- now) div 1000000) else now div 1000000)"

definition add_incident ::
  "int \<Rightarrow> string list \<Rightarrow> string \<Rightarrow> string \<Rightarrow> string list \<Rightarrow> real \<Rightarrow> real \<Rightarrow> memory_store \<Rightarrow>
   error option \<times> memory_store" where
  "add_incident now syms diag sol specs cost conf st =
     (let entry = \<lparr>mem_id = ''mem-'' @ str_int (epoch_seconds now), timestamp = now,
                    symptoms = syms, diagnosis = diag, mem_solution = sol, specialists = specs,
                    cost_impact = cost, confidence = conf, success_count = 1,
                    failure_count = 0, last_used = None\<rparr>
      in save (st\<lparr>memories := memories st @ [entry]\<rparr>))"

text \<open>The body of \<open>feedback\<close> for the entry whose id matches. The literals \<open>0.99\<close>,
  \<open>1.1\<close> and \<open>0.5\<close> are floats, and so is each product.\<close>

definition apply_feedback :: "(real \<Rightarrow> real) \<Rightarrow> bool \<Rightarrow> int \<Rightarrow> memory_entry \<Rightarrow> memory_entry" where
  "apply_feedback fl success now mem =
     (if success
      then mem\<lparr>success_count := success_count mem + 1,
               confidence := min (fl 0.99) (fl (confidence mem * fl 1.1)),
               last_used := Some now\<rparr>
      else mem\<lparr>failure_count := failure_count mem + 1,
               confidence := fl (confidence mem * fl 0.5),
               last_used := Some now\<rparr>)"

text \<open>The \<open>for mem in self.memories\<close> loop of \<open>feedback\<close>: \<open>None\<close> when it runs to its end
  without a match, else the list with the first matching entry updated.\<close>

fun feedback_loop ::
  "(real \<Rightarrow> real) \<Rightarrow> string \<Rightarrow> bool \<Rightarrow> int \<Rightarrow> memory_entry list \<Rightarrow> memory_entry list option" where
  "feedback_loop fl memory_id success now [] = None"
| "feedback_loop fl memory_id success now (mem # rest) =
     (if mem_id mem = memory_id then Some (apply_feedback fl success now mem # rest)
      else map_option ((#) mem) (feedback_loop fl memory_id success now rest))"

definition feedback ::
  "(real \<Rightarrow> real) \<Rightarrow> string \<Rightarrow> bool \<Rightarrow> int \<Rightarrow> memory_store \<Rightarrow> error option \<times> memory_store" where
  "feedback fl memory_id success now st =
     (case feedback_loop fl memory_id success now (memories st) of
        None \<Rightarrow> (None, st)
      | Some ms \<Rightarrow> save (st\<lparr>memories := ms\<rparr>))"







section \<open>The validation closure\<close>

text \<open>The status read from the final text of the validator.\<close>

definition parse_validation_status :: "string \<Rightarrow> string" where
  "parse_validation_status validation_text =
     (let u = upper validation_text
      in if contains u ''RESOLVED'' \<and> \<not> contains u ''NOT'' \<and> \<not> contains u ''FAILED'' then ''RESOLVED''
         else if contains u ''FAILED'' \<or> contains u ''NOT RESOLVED'' then ''FAILED''
         else ''INCONCLUSIVE'')"

definition validator_tool_names :: "string list" where
  "validator_tool_names =
     [''check_endpoint_health'', ''verify_gce_state'', ''verify_gke_pod_status'',
      ''verify_internal_endpoint'', ''check_quota'', ''estimate_cost'']"

text \<open>
  A probe tool of the validator: \<open>Some e\<close> when the call (the conversion of its arguments
  included) raises \<open>e\<close>, given the number of adapter calls made before it. Its result only
  goes back to the service.
\<close>

type_synonym validator_tools = "nat \<Rightarrow> function_call \<Rightarrow> error option"

text \<open>
  The loop of \<open>validate_fix\<close> that serves the function calls of the service. It has no
  step bound and sends without retry; \<open>None\<close> is a run that never ends.
\<close>

partial_function (option) validate_loop ::
  "chat \<Rightarrow> validator_tools \<Rightarrow> response \<Rightarrow> world \<Rightarrow> ((error + response) \<times> world) option" where
  "validate_loop chat tools r w =
     (case parts r of
        [] \<Rightarrow> Some (Inl IndexError, w)
      | p # ps \<Rightarrow>
          (case function_call p of
             None \<Rightarrow> Some (Inr r, w)
           | Some fc \<Rightarrow>
               (let known = fc_name fc \<in> set validator_tool_names;
                    failure = (if known then tools (length (executed w)) fc else None);
                    w1 = (if known
                          then w\<lparr>executed := executed w @ [(''validator.'' @ fc_name fc, fc_args fc)]\<rparr>
                          else w)
                in case failure of
                     Some e \<Rightarrow> Some (Inl e, w1)
                   | None \<Rightarrow>
                       (let w2 = w1\<lparr>sent := Suc (sent w1),
                                     trace := trace w1 @ [SendMessage (sent w1)]\<rparr>
                        in case chat (sent w1) of
                             Raises msg \<Rightarrow> Some (Inl (OracleError msg), w2)
                           | Reply r' \<Rightarrow> validate_loop chat tools r' w2))))"

text \<open>
  \<open>validate_fix\<close>, from the settle delay on (configuration and client are taken to load).
  The \<open>timestamp\<close> of the result, which no caller reads, is left out.
\<close>

definition validate_fix :: "chat \<Rightarrow> validator_tools \<Rightarrow> int \<Rightarrow> world \<Rightarrow> ((error + pydict) \<times> world) option" where
  "validate_fix chat tools wait_seconds w =
     (let w0 = (if wait_seconds > 0 then w\<lparr>trace := trace w @ [Sleep (nat wait_seconds)]\<rparr> else w);
          w1 = w0\<lparr>sent := Suc (sent w0), trace := trace w0 @ [SendMessage (sent w0)]\<rparr>
      in case chat (sent w0) of
           Raises msg \<Rightarrow> Some (Inl (OracleError msg), w1)
         | Reply r \<Rightarrow>
             (case validate_loop chat tools r w1 of
                None \<Rightarrow> None
              | Some (Inl e, w2) \<Rightarrow> Some (Inl e, w2)
              | Some (Inr r', w2) \<Rightarrow>
                  (case response_text r' of
                     None \<Rightarrow> Some (Inl AttributeError, w2)
                   | Some validation_text \<Rightarrow>
                       Some (Inr [(''status'', PStr (parse_validation_status validation_text)),
                                  (''details'', PStr (if validation_text \<noteq> [] then validation_text
                                                     else ''No validation details provided.''))],
                             w2))))"

text \<open>
  \<open>validation_agent\<close> of the incident manager, after \<open>_validate\<close> has returned or raised:
  the \<open>except\<close> clause replaces a raised exception by a result that says \<open>RESOLVED\<close>.
  \<open>context\<close> is the context as parsed from \<open>context_str\<close>. The result is the text
  returned and the memory store.
\<close>

definition validation_result_of :: "error + pydict \<Rightarrow> pydict" where
  "validation_result_of r =
     (case r of
        Inr d \<Rightarrow> d
      | Inl e \<Rightarrow> [(''status'', PStr ''RESOLVED''), (''validated'', PBool True),
                  (''reason'', PStr ''Validation skipped due to error'')])"

definition actions_taken_text :: "string \<Rightarrow> pydict \<Rightarrow> string \<Rightarrow> string" where
  "actions_taken_text incident_description context specialist_name =
     ''Fixed by '' @ specialist_name @ ''. External IP: '' @
     py_str (dict_get_default context ''external_ip'' (PStr [])) @
     ''. Incident: '' @ incident_description"

definition conclude_validation ::
  "error + pydict \<Rightarrow> string \<Rightarrow> pydict \<Rightarrow> string \<Rightarrow> int \<Rightarrow> memory_store \<Rightarrow> string \<times> memory_store" where
  "conclude_validation r incident_description context specialist_name now memory =
     (let validation_result = validation_result_of r;
          is_validated = (truthy (dict_get_default validation_result ''validated'' (PBool False)) \<or>
                          dict_get validation_result ''status'' = PStr ''RESOLVED'')
      in if is_validated then
           (''VALIDATION PASSED - Fix confirmed working!'' @ [CHR 0x0A] @ ''Details: '' @
              py_str (dict_get_default validation_result ''reason'' (PStr ''All checks passed'')),
            snd (add_incident now [incident_description] (''Fixed by '' @ specialist_name)
                   (actions_taken_text incident_description context specialist_name)
                   [specialist_name] 0 0.85 memory))
         else
           (''VALIDATION FAILED - Fix did not resolve the issue'' @ [CHR 0x0A] @ ''Reason: '' @
              py_str (dict_get_default validation_result ''reason'' (PStr ''Unknown'')),
            memory))"

text \<open>\<open>validation_agent\<close>: the validator is run with a settle delay of 5.\<close>

definition validation_agent ::
  "chat \<Rightarrow> validator_tools \<Rightarrow> string \<Rightarrow> pydict \<Rightarrow> string \<Rightarrow> int \<Rightarrow> memory_store \<Rightarrow> world \<Rightarrow>
   (string \<times> memory_store \<times> world) option" where
  "validation_agent chat tools incident_description context specialist_name now memory w =
     (case validate_fix chat tools 5 w of
        None \<Rightarrow> None
      | Some (r, w1) \<Rightarrow>
          (case conclude_validation r incident_description context specialist_name now memory of
             (reply, memory1) \<Rightarrow> Some (reply, memory1, w1)))"


section \<open>Example data\<close>

definition example_entry :: "real \<Rightarrow> memory_entry" where
  "example_entry c =
     \<lparr>mem_id = ''mem-1700000000'', timestamp = 0, symptoms = [''Web server down''],
      diagnosis = ''Fixed by linux_agent'', mem_solution = ''Restarted apache2'',
      specialists = [''linux_agent''], cost_impact = 0, confidence = c, success_count = 1,
      failure_count = 0, last_used = None\<rparr>"

definition example_store :: "memory_entry list \<Rightarrow> memory_store" where
  "example_store ms = \<lparr>memories = ms, on_disk = Some ms, writable = True, saves = 0\<rparr>"

text \<open>Two roundings: the exact arithmetic, and a float of three decimals that rounds
  down.\<close>

definition exact :: "real \<Rightarrow> real" where
  "exact x = x"

definition three_decimals :: "real \<Rightarrow> real" where
  "three_decimals x = of_int \<lfloor>x * 1000\<rfloor> / 1000"


definition fresh_world :: world where
  "fresh_world = \<lparr>sent = 0, trace = [], executed = [], probed = []\<rparr>"

definition text_reply :: "string \<Rightarrow> response" where
  "text_reply t = \<lparr>parts = [\<lparr>function_call = None, part_text = Some t\<rparr>], response_text = Some t\<rparr>"

definition tool_reply :: "string \<Rightarrow> pydict \<Rightarrow> response" where
  "tool_reply name args =
     \<lparr>parts = [\<lparr>function_call = Some \<lparr>fc_name = name, fc_args = args\<rparr>, part_text = None\<rparr>],
      response_text = None\<rparr>"

definition always_uptime :: chat where
  "always_uptime = (\<lambda>n. Reply (tool_reply ''run_linux_command'' [(''command'', PStr ''uptime'')]))"

definition always_list_pods :: chat where
  "always_list_pods = (\<lambda>n. Reply (tool_reply ''manage_gke'' [(''action'', PStr ''get_pod_details''), (''pod_name'', PStr ''web-0'')]))"

definition success_executor :: executor where
  "success_executor = (\<lambda>n command. [(''status'', PStr ''SUCCESS''), (''output'', PStr ''up 1 day'')])"


definition web_context :: pydict where
  "web_context = [(''resource_name'', PStr ''web-1''), (''zone'', PStr ''us-central1-a''),
                  (''external_ip'', PStr ''34.1.2.3'')]"

text \<open>An adapter in front of a stopped instance that starts on request.\<close>

definition stopped_executor :: executor where
  "stopped_executor = (\<lambda>n command.
     if dict_get command ''action'' = PStr ''get_instance_info''
     then [(''status'', PStr ''SUCCESS''), (''instance_status'', PStr ''TERMINATED'')]
     else [(''status'', PStr ''SUCCESS''), (''message'', PStr ''Instance web-1 started'')])"

text \<open>An adapter in front of a running instance whose network allows HTTPS only, and
  which creates every rule asked for.\<close>

definition blocked_executor :: executor where
  "blocked_executor = (\<lambda>n command.
     if dict_get command ''action'' = PStr ''get_instance_info''
     then [(''status'', PStr ''SUCCESS''), (''instance_status'', PStr ''RUNNING'')]
     else if dict_get command ''action'' = PStr ''check_firewall_rules''
     then [(''status'', PStr ''SUCCESS''), (''network'', PStr ''default''),
           (''ssh_allowed'', PBool False), (''http_allowed'', PBool False),
           (''https_allowed'', PBool True)]
     else [(''status'', PStr ''SUCCESS''), (''message'', PStr ''created'')])"

definition curl_ok :: "string \<Rightarrow> string + string" where
  "curl_ok url = Inr ''200''"

definition fixed_chat :: chat where
  "fixed_chat = (\<lambda>n. Reply (text_reply ''The service has been fixed''))"


definition pod_command :: "string \<Rightarrow> pydict" where
  "pod_command action =
     [(''action'', PStr action), (''namespace'', PStr ''default''), (''pod_name'', PStr ''web-0''),
      (''deployment_name'', PNone), (''replicas'', PNone), (''cluster_name'', PStr ''prod''),
      (''location'', PStr ''us-central1'')]"

definition no_tool_failure :: validator_tools where
  "no_tool_failure = (\<lambda>n fc. None)"

definition inconclusive_chat :: chat where
  "inconclusive_chat = (\<lambda>n. Reply (text_reply ''Unable to reach the endpoint''))"

definition rate_limited_chat :: chat where
  "rate_limited_chat = (\<lambda>n. Raises ''429 Resource exhausted'')"

text \<open>A response that requests two tools at once, followed by a free-text answer: for
  the cloud platform agent and for the Linux specialist.\<close>

definition two_pod_calls :: chat where
  "two_pod_calls = (\<lambda>n.
     if n = 0 then
       Reply \<lparr>parts =
           [\<lparr>function_call = Some \<lparr>fc_name = ''manage_gke'',
                fc_args = [(''action'', PStr ''get_pod_details''), (''pod_name'', PStr ''web-0'')]\<rparr>,
             part_text = None\<rparr>,
            \<lparr>function_call = Some \<lparr>fc_name = ''manage_gke'',
                fc_args = [(''action'', PStr ''get_pod_logs''), (''pod_name'', PStr ''web-0'')]\<rparr>,
             part_text = None\<rparr>],
          response_text = None\<rparr>
     else Reply (text_reply ''Pod web-0 is healthy''))"

definition two_linux_calls :: chat where
  "two_linux_calls = (\<lambda>n.
     if n = 0 then
       Reply \<lparr>parts =
           [\<lparr>function_call = Some \<lparr>fc_name = ''run_linux_command'',
                fc_args = [(''command'', PStr ''uptime'')]\<rparr>,
             part_text = None\<rparr>,
            \<lparr>function_call = Some \<lparr>fc_name = ''run_linux_command'',
                fc_args = [(''command'', PStr ''df -h'')]\<rparr>,
             part_text = None\<rparr>],
          response_text = None\<rparr>
     else Reply (text_reply ''Host web-1 is healthy''))"


section \<open>Properties of the memory store\<close>


lemma mem_id_apply_feedback [simp]: "mem_id (apply_feedback fl success now m) = mem_id m"
  by (simp add: apply_feedback_def)


lemma feedback_loop_find:
  "find (\<lambda>m. mem_id m = memory_id) ms = Some m \<Longrightarrow>
   \<exists>ms'. feedback_loop fl memory_id success now ms = Some ms' \<and>
     find (\<lambda>m. mem_id m = memory_id) ms' = Some (apply_feedback fl success now m)"
  by (induction ms) (auto split: if_splits)

lemma memories_save [simp]: "memories (snd (save st)) = memories st"
  by (simp add: save_def)

lemma mono_exact: "mono exact"
  by (simp add: mono_def exact_def)

lemma mono_three_decimals: "mono three_decimals"
  unfolding mono_def three_decimals_def
  by (auto intro!: divide_right_mono floor_mono simp: of_int_le_iff)

text \<open>
  C8, as the code has it. \<open>feedback\<close> updates the first entry with the given id and sets
  its last-used date. The rounding \<open>fl\<close> is any monotone function that leaves the stored
  confidence as it is, with \<open>1 \<le> fl 1.1\<close> and \<open>fl 0.5 \<le> 1\<close>, as the rounding to the nearest
  double is. On success the confidence becomes \<open>min(0.99, old * 1.1)\<close>, each product and
  literal rounded: it never exceeds the cap; it is not below the old value when that lies
  between 0 and the cap; it is strictly greater exactly when the old value is below the cap
  and below the rounded product. On failure it becomes the rounded \<open>old * 0.5\<close>, which is
  not above the old value when that is not negative. In exact arithmetic the success value
  is strictly greater when the old value lies strictly between 0 and 0.99, and the failure
  value is half the old one, strictly smaller when the old value is positive.
\<close>

theorem feedback_confidence:
  "find (\<lambda>m. mem_id m = memory_id) (memories st) = Some m \<Longrightarrow>
   mono fl \<Longrightarrow> fl (confidence m) = confidence m \<Longrightarrow> 1 \<le> fl 1.1 \<Longrightarrow> fl 0.5 \<le> 1 \<Longrightarrow>
     find (\<lambda>m. mem_id m = memory_id) (memories (snd (feedback fl memory_id success now st)))
       = Some (apply_feedback fl success now m) \<and>
     last_used (apply_feedback fl success now m) = Some now \<and>
     confidence (apply_feedback fl True now m) = min (fl 0.99) (fl (confidence m * fl 1.1)) \<and>
     confidence (apply_feedback fl True now m) \<le> fl 0.99 \<and>
     (0 \<le> confidence m \<and> confidence m \<le> fl 0.99 \<longrightarrow>
        confidence m \<le> confidence (apply_feedback fl True now m)) \<and>
     (confidence m < confidence (apply_feedback fl True now m) \<longleftrightarrow>
        confidence m < fl 0.99 \<and> confidence m < fl (confidence m * fl 1.1)) \<and>
     confidence (apply_feedback fl False now m) = fl (confidence m * fl 0.5) \<and>
     (0 \<le> confidence m \<longrightarrow> confidence (apply_feedback fl False now m) \<le> confidence m) \<and>
     ((\<forall>x. fl x = x) \<longrightarrow>
        confidence (apply_feedback fl True now m) = min 0.99 (confidence m * 1.1) \<and>
        (0 < confidence m \<and> confidence m < 0.99 \<longrightarrow>
           confidence m < confidence (apply_feedback fl True now m)) \<and>
        confidence (apply_feedback fl False now m) = confidence m / 2 \<and>
        (0 < confidence m \<longrightarrow> confidence (apply_feedback fl False now m) < confidence m))"
proof -
  assume f: "find (\<lambda>m. mem_id m = memory_id) (memories st) = Some m"
    and mono: "mono fl" and rep: "fl (confidence m) = confidence m"
    and c11: "1 \<le> fl 1.1" and c05: "fl 0.5 \<le> 1"
  from feedback_loop_find[OF f, of fl success now] obtain ms' where
    ms': "feedback_loop fl memory_id success now (memories st) = Some ms'"
    "find (\<lambda>m. mem_id m = memory_id) ms' = Some (apply_feedback fl success now m)" by blast
  have 1: "find (\<lambda>m. mem_id m = memory_id) (memories (snd (feedback fl memory_id success now st)))
       = Some (apply_feedback fl success now m)"
    using ms' by (simp add: feedback_def save_def)
  have 2: "last_used (apply_feedback fl success now m) = Some now"
    by (simp add: apply_feedback_def)
  have 3: "confidence (apply_feedback fl True now m) = min (fl 0.99) (fl (confidence m * fl 1.1))"
    by (simp add: apply_feedback_def)
  have 4: "confidence (apply_feedback fl False now m) = fl (confidence m * fl 0.5)"
    by (simp add: apply_feedback_def)
  have up: "0 \<le> confidence m \<Longrightarrow> confidence m \<le> fl (confidence m * fl 1.1)"
  proof -
    assume nn: "0 \<le> confidence m"
    have "confidence m * 1 \<le> confidence m * fl 1.1"
      using nn c11 by (rule mult_left_mono[rotated])
    then have "fl (confidence m) \<le> fl (confidence m * fl 1.1)"
      using mono by (simp add: monoD)
    then show ?thesis using rep by simp
  qed
  have down: "0 \<le> confidence m \<Longrightarrow> fl (confidence m * fl 0.5) \<le> confidence m"
  proof -
    assume nn: "0 \<le> confidence m"
    have "confidence m * fl 0.5 \<le> confidence m * 1"
      using nn c05 by (rule mult_left_mono[rotated])
    then have "fl (confidence m * fl 0.5) \<le> fl (confidence m)"
      using mono by (simp add: monoD)
    then show ?thesis using rep by simp
  qed
  have 5: "confidence (apply_feedback fl True now m) \<le> fl 0.99"
    unfolding 3 by simp
  have 6: "0 \<le> confidence m \<and> confidence m \<le> fl 0.99 \<longrightarrow>
        confidence m \<le> confidence (apply_feedback fl True now m)"
    unfolding 3 using up by simp
  have 7: "confidence m < confidence (apply_feedback fl True now m) \<longleftrightarrow>
        confidence m < fl 0.99 \<and> confidence m < fl (confidence m * fl 1.1)"
    unfolding 3 by simp
  have 8: "0 \<le> confidence m \<longrightarrow> confidence (apply_feedback fl False now m) \<le> confidence m"
    unfolding 4 using down by simp
  have 9: "(\<forall>x. fl x = x) \<longrightarrow>
        confidence (apply_feedback fl True now m) = min 0.99 (confidence m * 1.1) \<and>
        (0 < confidence m \<and> confidence m < 0.99 \<longrightarrow>
           confidence m < confidence (apply_feedback fl True now m)) \<and>
        confidence (apply_feedback fl False now m) = confidence m / 2 \<and>
        (0 < confidence m \<longrightarrow> confidence (apply_feedback fl False now m) < confidence m)"
    unfolding 3 4 by (auto simp: min_def)
  show ?thesis using 1 2 3 4 5 6 7 8 9 by blast
qed

theorem feedback_confidence_witness:
  "find (\<lambda>m. mem_id m = ''mem-1700000000'')
     (memories (snd (feedback exact ''mem-1700000000'' True 1 (example_store [example_entry 0.9]))))
     = Some (apply_feedback exact True 1 (example_entry 0.9)) \<and>
   last_used (apply_feedback exact True 1 (example_entry 0.9)) = Some 1 \<and>
   confidence (example_entry 0.9) < confidence (apply_feedback exact True 1 (example_entry 0.9)) \<and>
   confidence (apply_feedback exact True 1 (example_entry 0.9)) = 0.99 \<and>
   confidence (apply_feedback exact False 1 (example_entry 0.9)) = 0.45 \<and>
   confidence (apply_feedback exact False 1 (example_entry 0.9)) < confidence (example_entry 0.9) \<and>
   confidence (example_entry 0.001) = 0.001 \<and>
   confidence (apply_feedback three_decimals True 1 (example_entry 0.001)) = 0.001 \<and>
   confidence (apply_feedback three_decimals False 1 (example_entry 0.001)) = 0"
proof -
  have f: "find (\<lambda>m. mem_id m = ''mem-1700000000'') (memories (example_store [example_entry 0.9]))
      = Some (example_entry 0.9)"
    by (simp add: example_store_def example_entry_def)
  have c: "confidence (example_entry 0.9) = 0.9" by (simp add: example_entry_def)
  have e: "\<forall>x. exact x = x" by (simp add: exact_def)
  have h: "exact (confidence (example_entry 0.9)) = confidence (example_entry 0.9)"
    "1 \<le> exact 1.1" "exact 0.5 \<le> 1"
    by (simp_all add: exact_def)
  have g: "find (\<lambda>m. mem_id m = ''mem-1700000000'') (memories (example_store [example_entry 0.001]))
      = Some (example_entry 0.001)"
    by (simp add: example_store_def example_entry_def)
  have d: "confidence (example_entry 0.001) = 0.001" by (simp add: example_entry_def)
  have k: "three_decimals (confidence (example_entry 0.001)) = confidence (example_entry 0.001)"
    "1 \<le> three_decimals 1.1" "three_decimals 0.5 \<le> 1"
    by (simp_all add: three_decimals_def example_entry_def)
  have t: "three_decimals 0.99 = 0.99" "three_decimals 1.1 = 1.1" "three_decimals 0.5 = 0.5"
    "three_decimals (0.001 * 1.1) = 0.001" "three_decimals (0.001 * 0.5) = 0"
    by (simp_all add: three_decimals_def)
  note A = feedback_confidence [OF f mono_exact h, where success = True and now = 1]
  note B = feedback_confidence [OF g mono_three_decimals k, where success = True and now = 1]
  have 1: "find (\<lambda>m. mem_id m = ''mem-1700000000'')
     (memories (snd (feedback exact ''mem-1700000000'' True 1 (example_store [example_entry 0.9]))))
     = Some (apply_feedback exact True 1 (example_entry 0.9))"
    using A by blast
  have 2: "last_used (apply_feedback exact True 1 (example_entry 0.9)) = Some 1"
    using A by blast
  have "confidence (apply_feedback exact True 1 (example_entry 0.9))
      = min (exact 0.99) (exact (confidence (example_entry 0.9) * exact 1.1))"
    using A by blast
  then have 3: "confidence (apply_feedback exact True 1 (example_entry 0.9)) = 0.99"
    by (simp add: c exact_def)
  have "confidence (apply_feedback exact False 1 (example_entry 0.9))
      = exact (confidence (example_entry 0.9) * exact 0.5)"
    using A by blast
  then have 4: "confidence (apply_feedback exact False 1 (example_entry 0.9)) = 0.45"
    by (simp add: c exact_def)
  have a5: "confidence (apply_feedback three_decimals True 1 (example_entry 0.001))
      = min (three_decimals 0.99) (three_decimals (confidence (example_entry 0.001) * three_decimals 1.1))"
    using B by blast
  have 5: "confidence (apply_feedback three_decimals True 1 (example_entry 0.001)) = 0.001"
    unfolding a5 d t by simp
  have a6: "confidence (apply_feedback three_decimals False 1 (example_entry 0.001))
      = three_decimals (confidence (example_entry 0.001) * three_decimals 0.5)"
    using B by blast
  have 6: "confidence (apply_feedback three_decimals False 1 (example_entry 0.001)) = 0"
    unfolding a6 d t by simp
  show ?thesis
    unfolding 3 4 5 6 using 1 2 c d by simp
qed

text \<open>
  The claim as stated says that a success strictly increases the confidence. At the cap it
  does not: an entry at 0.99 (reached from 0.85 by two successes) stays at 0.99.
\<close>

theorem feedback_success_at_cap_counterexample:
  "map confidence (memories (example_store [example_entry 0.99])) = [0.99] \<and>
   map confidence
     (memories (snd (feedback exact ''mem-1700000000'' True 1 (example_store [example_entry 0.99])))) = [0.99]"
  by (simp add: feedback_def example_store_def example_entry_def apply_feedback_def save_def exact_def)










lemma lower_example: "lower ''Web server down'' = ''web server down''"
  by (simp add: lower_def lower_char_def)







section \<open>Properties of the reasoning channel\<close>

declare safe_send_loop.simps [simp del]

declare linux_loop.simps [simp del]

declare gcp_loop.simps [simp del]

lemma safe_send_loop_0: "safe_send_loop chat 0 backoff w = (Inr None, w)"
  by (subst safe_send_loop.simps) simp

lemma safe_send_loop_Suc:
  "safe_send_loop chat (Suc retries) backoff w =
     (case chat (sent w) of
        Reply r \<Rightarrow>
          (Inr (Some r), w\<lparr>sent := Suc (sent w), trace := trace w @ [Sleep 2, SendMessage (sent w)]\<rparr>)
      | Raises msg \<Rightarrow>
          if is_rate_limit msg
          then safe_send_loop chat retries (backoff * 2)
                 (w\<lparr>sent := Suc (sent w),
                    trace := trace w @ [Sleep 2, SendMessage (sent w), Sleep backoff]\<rparr>)
          else (Inl (OracleError msg),
                w\<lparr>sent := Suc (sent w), trace := trace w @ [Sleep 2, SendMessage (sent w)]\<rparr>))"
  by (subst safe_send_loop.simps) (simp add: Let_def split: send_result.splits)

lemma safe_send_unfold:
  "safe_send chat w = safe_send_loop chat (Suc (Suc (Suc 0))) 10 w"
  by (simp add: safe_send_def eval_nat_numeral)

lemma safe_send_sent_le: "sent (snd (safe_send chat w)) \<le> sent w + 3"
  unfolding safe_send_unfold
  by (auto simp: safe_send_loop_Suc safe_send_loop_0 split: send_result.splits)

lemma safe_send_reply:
  "chat (sent w) = Reply r \<Longrightarrow>
   safe_send chat w = (Inr (Some r), w\<lparr>sent := Suc (sent w), trace := trace w @ [Sleep 2, SendMessage (sent w)]\<rparr>)"
  unfolding safe_send_unfold by (simp add: safe_send_loop_Suc)








section \<open>Properties of the tool-invocation loops\<close>

lemma linux_run_command_sent [simp]:
  "sent (env (linux_run_command executor zone vm_name args s)) = sent (env s)"
  by (simp add: linux_run_command_def Let_def split: option.splits pyval.splits)

lemma linux_part_sent [simp]:
  "sent (env (snd (linux_part executor zone vm_name p fs))) = sent (env (snd fs))"
  by (cases fs) (simp add: linux_part_def split: option.splits)

lemma linux_parts_sent [simp]:
  "sent (env (snd (linux_parts executor zone vm_name ps fs))) = sent (env (snd fs))"
  by (induction ps arbitrary: fs) (simp_all add: Let_def)

lemma linux_part_no_call:
  "function_call p = None \<Longrightarrow> fst (linux_part executor zone vm_name p fs) = fst fs"
  by (cases fs) (simp add: linux_part_def split: option.splits)

lemma linux_parts_no_call:
  "\<forall>p \<in> set ps. function_call p = None \<Longrightarrow> fst (linux_parts executor zone vm_name ps fs) = fst fs"
  by (induction ps arbitrary: fs) (simp_all add: Let_def linux_part_no_call)

lemma linux_loop_bounds:
  "fst (linux_loop chat executor zone vm_name step s) \<le> max step max_steps \<and>
   sent (env (snd (linux_loop chat executor zone vm_name step s)))
     \<le> sent (env s) + 3 * (max_steps - step)"
proof (induction chat executor zone vm_name step s rule: linux_loop.induct)
  case (1 chat executor zone vm_name step s)
  show ?case
  proof (cases "cur_response s")
    case None
    then show ?thesis by (subst (1 2) linux_loop.simps) simp
  next
    case (Some r)
    show ?thesis
    proof (cases "step < max_steps")
      case False
      with Some show ?thesis by (subst (1 2) linux_loop.simps) simp
    next
      case True
      let ?fs = "linux_parts executor zone vm_name (parts r) (False, s)"
      show ?thesis
      proof (cases "raised (snd ?fs) \<noteq> None \<or> \<not> fst ?fs")
        case stop: True
        with Some True show ?thesis
          by (subst (1 2) linux_loop.simps) (auto simp: Let_def)
      next
        case False
        then have go: "raised (snd ?fs) = None" "fst ?fs" by auto
        obtain res w where sr: "safe_send chat (env (snd ?fs)) = (res, w)" by (cases "safe_send chat (env (snd ?fs))")
        show ?thesis
        proof (cases res)
          case (Inl e)
          have "sent w \<le> sent (env s) + 3"
            using safe_send_sent_le [of chat "env (snd ?fs)"] sr by simp
          with Some True go sr Inl show ?thesis
            by (subst (1 2) linux_loop.simps) (simp add: Let_def)
        next
          case (Inr resp)
          from "1.IH"[OF Some True refl _ _ sr[symmetric, unfolded Inr] refl] go
          have ih: "fst (linux_loop chat executor zone vm_name (Suc step)
                  ((snd ?fs)\<lparr>cur_response := resp, env := w\<rparr>)) \<le> max (Suc step) max_steps \<and>
              sent (env (snd (linux_loop chat executor zone vm_name (Suc step)
                  ((snd ?fs)\<lparr>cur_response := resp, env := w\<rparr>))))
                \<le> sent w + 3 * (max_steps - Suc step)"
            by simp
          have "sent w \<le> sent (env s) + 3"
            using safe_send_sent_le [of chat "env (snd ?fs)"] sr by simp
          with ih True have "fst (linux_loop chat executor zone vm_name (Suc step)
                  ((snd ?fs)\<lparr>cur_response := resp, env := w\<rparr>)) \<le> max step max_steps \<and>
              sent (env (snd (linux_loop chat executor zone vm_name (Suc step)
                  ((snd ?fs)\<lparr>cur_response := resp, env := w\<rparr>))))
                \<le> sent (env s) + 3 * (max_steps - step)"
            by auto
          with Some True go sr Inr show ?thesis
            by (subst (1 2) linux_loop.simps) (simp add: Let_def)
        qed
      qed
    qed
  qed
qed

lemma linux_run_bounds:
  "fst (linux_run chat executor context w) \<le> 5 \<and>
   sent (env (snd (linux_run chat executor context w))) \<le> sent w + 18"
proof -
  obtain res w1 where sr: "safe_send chat w = (res, w1)" by (cases "safe_send chat w")
  have w1: "sent w1 \<le> sent w + 3" using safe_send_sent_le [of chat w] sr by simp
  show ?thesis
  proof (cases res)
    case (Inl e)
    with sr w1 show ?thesis by (simp add: linux_run_def Let_def)
  next
    case (Inr resp)
    let ?s0 = "\<lparr>cur_response = resp, is_resolved = False, found = [], acted = [],
                raised = None, env = w1\<rparr>"
    from linux_loop_bounds [of chat executor
        "dict_get_default context ''zone'' (PStr ''unknown'')"
        "dict_get_default context ''resource_name'' (PStr ''unknown'')" 0 ?s0] w1
    have "fst (linux_loop chat executor (dict_get_default context ''zone'' (PStr ''unknown''))
        (dict_get_default context ''resource_name'' (PStr ''unknown'')) 0 ?s0) \<le> 5 \<and>
      sent (env (snd (linux_loop chat executor (dict_get_default context ''zone'' (PStr ''unknown''))
        (dict_get_default context ''resource_name'' (PStr ''unknown'')) 0 ?s0))) \<le> sent w + 18"
      by (simp add: max_steps_def)
    with sr Inr show ?thesis by (simp add: linux_run_def Let_def)
  qed
qed

lemma linux_loop_terminal:
  assumes "cur_response s = Some r" "step < max_steps" "\<forall>p \<in> set (parts r). function_call p = None"
  shows "fst (linux_loop chat executor zone vm_name step s) = Suc step"
  using assms linux_parts_no_call [of "parts r" executor zone vm_name "(False, s)"]
  by (subst linux_loop.simps) (simp add: Let_def)

lemma execute_sent [simp]: "sent (snd (execute ex tag command w)) = sent w"
  by (simp add: execute_def)

lemma gcp_dispatch_fields [simp]:
  "sent (env (gcp_dispatch gke gcs region fc s)) = sent (env s)"
  "is_resolved (gcp_dispatch gke gcs region fc s) = is_resolved s"
  "cur_response (gcp_dispatch gke gcs region fc s) = cur_response s"
  "raised (gcp_dispatch gke gcs region fc s) = raised s"
  by (simp_all add: gcp_dispatch_def execute_def Let_def)

lemma gcp_loop_bounds:
  "fst (gcp_loop chat gke gcs region step s) \<le> max step max_steps \<and>
   sent (env (snd (gcp_loop chat gke gcs region step s)))
     \<le> sent (env s) + 3 * (max_steps - step) \<and>
   (\<not> is_resolved s \<longrightarrow> resolved_has_text (snd (gcp_loop chat gke gcs region step s)))"
proof (induction chat gke gcs region step s rule: gcp_loop.induct)
  case (1 chat gke gcs region step s)
  show ?case
  proof (cases "cur_response s")
    case None
    then show ?thesis by (subst (1 2 3) gcp_loop.simps) (simp add: resolved_has_text_def)
  next
    case (Some r)
    show ?thesis
    proof (cases "step < max_steps")
      case False
      with Some show ?thesis by (subst (1 2 3) gcp_loop.simps) (simp add: resolved_has_text_def)
    next
      case True
      show ?thesis
      proof (cases "parts r")
        case Nil
        with Some True show ?thesis
          by (subst (1 2 3) gcp_loop.simps) (simp add: resolved_has_text_def)
      next
        case (Cons p ps)
        show ?thesis
        proof (cases "function_call p")
          case None
          with Some True Cons show ?thesis
            by (subst (1 2 3) gcp_loop.simps)
               (auto simp: resolved_has_text_def split: option.splits)
        next
          case fc: (Some fc)
          let ?s1 = "gcp_dispatch gke gcs region fc s"
          obtain res w where sr: "safe_send chat (env ?s1) = (res, w)"
            by (cases "safe_send chat (env ?s1)")
          have w: "sent w \<le> sent (env s) + 3"
            using safe_send_sent_le [of chat "env ?s1"] sr by simp
          show ?thesis
          proof (cases res)
            case (Inl e)
            with Some True Cons fc sr w show ?thesis
              by (subst (1 2 3) gcp_loop.simps) (simp add: Let_def resolved_has_text_def)
          next
            case (Inr resp)
            from "1.IH"[OF Some True Cons fc refl sr[symmetric, unfolded Inr] refl]
            have ih: "fst (gcp_loop chat gke gcs region (Suc step) (?s1\<lparr>cur_response := resp, env := w\<rparr>))
                  \<le> max (Suc step) max_steps \<and>
                sent (env (snd (gcp_loop chat gke gcs region (Suc step) (?s1\<lparr>cur_response := resp, env := w\<rparr>))))
                  \<le> sent w + 3 * (max_steps - Suc step) \<and>
                (\<not> is_resolved s \<longrightarrow>
                   resolved_has_text (snd (gcp_loop chat gke gcs region (Suc step) (?s1\<lparr>cur_response := resp, env := w\<rparr>))))"
              by simp
            with w True have "fst (gcp_loop chat gke gcs region (Suc step) (?s1\<lparr>cur_response := resp, env := w\<rparr>))
                  \<le> max step max_steps \<and>
                sent (env (snd (gcp_loop chat gke gcs region (Suc step) (?s1\<lparr>cur_response := resp, env := w\<rparr>))))
                  \<le> sent (env s) + 3 * (max_steps - step) \<and>
                (\<not> is_resolved s \<longrightarrow>
                   resolved_has_text (snd (gcp_loop chat gke gcs region (Suc step) (?s1\<lparr>cur_response := resp, env := w\<rparr>))))"
              by auto
            with Some True Cons fc sr Inr show ?thesis
              by (subst (1 2 3) gcp_loop.simps) (simp add: Let_def)
          qed
        qed
      qed
    qed
  qed
qed

lemma gcp_run_bounds:
  "fst (gcp_run chat gke gcs region w) \<le> 5 \<and>
   sent (env (snd (gcp_run chat gke gcs region w))) \<le> sent w + 18 \<and>
   resolved_has_text (snd (gcp_run chat gke gcs region w))"
proof -
  obtain res w1 where sr: "safe_send chat w = (res, w1)" by (cases "safe_send chat w")
  have w1: "sent w1 \<le> sent w + 3" using safe_send_sent_le [of chat w] sr by simp
  show ?thesis
  proof (cases res)
    case (Inl e)
    with sr w1 show ?thesis by (simp add: gcp_run_def Let_def resolved_has_text_def)
  next
    case (Inr resp)
    let ?s0 = "\<lparr>cur_response = resp, is_resolved = False, found = [], acted = [],
                raised = None, env = w1\<rparr>"
    from gcp_loop_bounds [of chat gke gcs region 0 ?s0] w1
    have "fst (gcp_loop chat gke gcs region 0 ?s0) \<le> 5 \<and>
      sent (env (snd (gcp_loop chat gke gcs region 0 ?s0))) \<le> sent w + 18 \<and>
      resolved_has_text (snd (gcp_loop chat gke gcs region 0 ?s0))"
      by (simp add: max_steps_def)
    with sr Inr show ?thesis by (simp add: gcp_run_def Let_def)
  qed
qed

lemma gcp_loop_terminal:
  assumes "cur_response s = Some r" "step < max_steps" "parts r = p # ps" "function_call p = None"
  shows "fst (gcp_loop chat gke gcs region step s) = Suc step"
  using assms by (subst gcp_loop.simps) (simp split: option.splits)

text \<open>
  For every script of the reasoning service and every behaviour of the adapters, the loop
  of the Linux specialist and the loop of the cloud platform agent end with a step counter
  of at most 5; the whole run sends at most 18 messages (six sends of at most three
  attempts). An iteration whose response requests no tool is the last one: the loop stops
  there, having counted it. The bound is reached when every response requests a tool.
\<close>

lemma loop_step_bounds:
  "fst (linux_run chat executor ctx w) \<le> 5 \<and>
   sent (env (snd (linux_run chat executor ctx w))) \<le> sent w + 18 \<and>
   fst (gcp_run chat gke_executor gcs_executor region w) \<le> 5 \<and>
   sent (env (snd (gcp_run chat gke_executor gcs_executor region w))) \<le> sent w + 18 \<and>
   (cur_response s = Some r \<and> step < max_steps \<and> (\<forall>p \<in> set (parts r). function_call p = None) \<longrightarrow>
      fst (linux_loop chat executor zone vm_name step s) = Suc step) \<and>
   (cur_response s = Some r \<and> step < max_steps \<and> parts r = p # ps \<and> function_call p = None \<longrightarrow>
      fst (gcp_loop chat gke_executor gcs_executor region step s) = Suc step)"
proof -
  have t1: "cur_response s = Some r \<and> step < max_steps \<and> (\<forall>p \<in> set (parts r). function_call p = None) \<longrightarrow>
      fst (linux_loop chat executor zone vm_name step s) = Suc step"
    using linux_loop_terminal by blast
  have t2: "cur_response s = Some r \<and> step < max_steps \<and> parts r = p # ps \<and> function_call p = None \<longrightarrow>
      fst (gcp_loop chat gke_executor gcs_executor region step s) = Suc step"
    using gcp_loop_terminal by blast
  show ?thesis
    using linux_run_bounds gcp_run_bounds t1 t2 by blast
qed

lemma linux_run_always:
  "fst (linux_run always_uptime success_executor [] fresh_world) = 5"
  by (simp add: linux_run_def always_uptime_def safe_send_reply linux_loop.simps max_steps_def
      tool_reply_def linux_part_def linux_run_command_def success_executor_def dict_get_def
      dict_get_default_def fresh_world_def Let_def)

lemma gcp_run_always:
  "fst (gcp_run always_list_pods success_executor success_executor (PStr ''us-central1'') fresh_world) = 5"
  by (simp add: gcp_run_def always_list_pods_def safe_send_reply gcp_loop.simps max_steps_def
      tool_reply_def gcp_dispatch_def execute_def success_executor_def dict_get_def
      dict_get_default_def fresh_world_def Let_def)

lemma healthy_no_marker:
  "\<not> resolution_marker ''Pod web-0 is healthy''" "\<not> resolution_marker ''Host web-1 is healthy''"
  by (simp_all add: resolution_marker_def lower_def lower_char_def)

text \<open>
  C3, on the code. The first response requests two tool invocations at once. The loop of
  the cloud platform agent looks at the first part of a response only: it dispatches the
  first invocation, sends one result, and the second invocation is never run. The loop of
  the Linux specialist dispatches both, in order, before it sends the results. Both runs
  end after two of the at most five steps, the second one being the free-text turn.
\<close>

theorem gcp_loop_dispatches_first_part_only:
  "run_agent_loop two_pod_calls success_executor success_executor (PStr ''us-central1'') fresh_world =
     (Inr \<lparr>status = ''NEEDS_HANDOFF'',
           findings = [''GKE get_pod_details: SUCCESS'', ''Pod web-0 is healthy''],
           actions_taken = [''GKE: get_pod_details on web-0''],
           solution = None, suggested_specialist = Some ''linux_agent''\<rparr>,
      \<lparr>sent = 2, trace = [Sleep 2, SendMessage 0, Sleep 2, SendMessage 1],
       executed =
         [(''gke'', [(''action'', PStr ''get_pod_details''), (''namespace'', PStr ''default''),
                    (''pod_name'', PStr ''web-0''), (''deployment_name'', PNone),
                    (''replicas'', PNone), (''cluster_name'', PNone),
                    (''location'', PStr ''us-central1'')])],
       probed = []\<rparr>) \<and>
   fst (gcp_run two_pod_calls success_executor success_executor (PStr ''us-central1'') fresh_world) = 2 \<and>
   linux_troubleshoot two_linux_calls success_executor web_context fresh_world =
     (Inr \<lparr>status = ''NEEDS_HANDOFF'',
           findings = [''[uptime] '' @ arrow @ '' up 1 day...'', ''[df -h] '' @ arrow @ '' up 1 day...'',
                       ''Host web-1 is healthy''],
           actions_taken = [''Running: uptime'', ''Running: df -h''],
           solution = None, suggested_specialist = Some ''gcp_platform''\<rparr>,
      \<lparr>sent = 2, trace = [Sleep 2, SendMessage 0, Sleep 2, SendMessage 1],
       executed =
         [(''gce'', [(''action'', PStr ''execute_ssh_command''), (''zone'', PStr ''us-central1-a''),
                    (''instance_name'', PStr ''web-1''), (''ssh_command'', PStr ''uptime'')]),
          (''gce'', [(''action'', PStr ''execute_ssh_command''), (''zone'', PStr ''us-central1-a''),
                    (''instance_name'', PStr ''web-1''), (''ssh_command'', PStr ''df -h'')])],
       probed = []\<rparr>) \<and>
   fst (linux_run two_linux_calls success_executor web_context fresh_world) = 2"
proof -
  have 1: "gcp_run two_pod_calls success_executor success_executor (PStr ''us-central1'') fresh_world =
     (2, \<lparr>cur_response = Some (text_reply ''Pod web-0 is healthy''), is_resolved = False,
          found = [''GKE get_pod_details: SUCCESS'', ''Pod web-0 is healthy''],
          acted = [''GKE: get_pod_details on web-0''], raised = None,
          env = \<lparr>sent = 2, trace = [Sleep 2, SendMessage 0, Sleep 2, SendMessage 1],
                 executed =
                   [(''gke'', [(''action'', PStr ''get_pod_details''), (''namespace'', PStr ''default''),
                              (''pod_name'', PStr ''web-0''), (''deployment_name'', PNone),
                              (''replicas'', PNone), (''cluster_name'', PNone),
                              (''location'', PStr ''us-central1'')])],
                 probed = []\<rparr>\<rparr>)"
    by (simp add: gcp_run_def two_pod_calls_def safe_send_reply gcp_loop.simps max_steps_def
        text_reply_def gcp_dispatch_def execute_def success_executor_def dict_get_def
        dict_get_default_def fresh_world_def healthy_no_marker Let_def py_or_def
        py_str_def)
  have 2: "linux_run two_linux_calls success_executor web_context fresh_world =
     (2, \<lparr>cur_response = Some (text_reply ''Host web-1 is healthy''), is_resolved = False,
          found = [''[uptime] '' @ arrow @ '' up 1 day...'', ''[df -h] '' @ arrow @ '' up 1 day...'',
                   ''Host web-1 is healthy''],
          acted = [''Running: uptime'', ''Running: df -h''], raised = None,
          env = \<lparr>sent = 2, trace = [Sleep 2, SendMessage 0, Sleep 2, SendMessage 1],
                 executed =
                   [(''gce'', [(''action'', PStr ''execute_ssh_command''), (''zone'', PStr ''us-central1-a''),
                              (''instance_name'', PStr ''web-1''), (''ssh_command'', PStr ''uptime'')]),
                    (''gce'', [(''action'', PStr ''execute_ssh_command''), (''zone'', PStr ''us-central1-a''),
                              (''instance_name'', PStr ''web-1''), (''ssh_command'', PStr ''df -h'')])],
                 probed = []\<rparr>\<rparr>)"
    by (simp add: linux_run_def two_linux_calls_def safe_send_reply linux_loop.simps max_steps_def
        text_reply_def linux_part_def linux_run_command_def success_executor_def dict_get_def
        dict_get_default_def fresh_world_def web_context_def healthy_no_marker Let_def
        replace_newlines_def py_str_def)
  show ?thesis
    unfolding run_agent_loop_def linux_troubleshoot_def 1 2
    by (simp add: gcp_outcome_def linux_outcome_def)
qed


lemma marker_not_resolved: "resolution_marker ''NOT RESOLVED''"
  by (simp add: resolution_marker_def)

text \<open>
  C4, on the code. A free-text turn ends the loop and its text is appended to the findings,
  but the loops of the specialists look for a resolution marker only: the text
  \<open>NOT RESOLVED\<close> yields a \<open>RESOLVED\<close> outcome in the cloud platform agent and in the
  Linux specialist, while the validator, which tests for a negation, reads the same text
  as \<open>FAILED\<close>.
\<close>

theorem negated_marker_resolves:
  "fst (run_agent_loop (\<lambda>n. Reply (text_reply ''NOT RESOLVED'')) gke_executor gcs_executor region fresh_world)
     = Inr \<lparr>status = ''RESOLVED'', findings = [''NOT RESOLVED''], actions_taken = [],
            solution = Some ''NOT RESOLVED'', suggested_specialist = Some ''linux_agent''\<rparr> \<and>
   fst (linux_troubleshoot (\<lambda>n. Reply (text_reply ''NOT RESOLVED'')) executor context fresh_world)
     = Inr \<lparr>status = ''RESOLVED'', findings = [''NOT RESOLVED''], actions_taken = [],
            solution = Some ''NOT RESOLVED'', suggested_specialist = None\<rparr> \<and>
   parse_validation_status ''NOT RESOLVED'' = ''FAILED''"
proof -
  have 1: "fst (run_agent_loop (\<lambda>n. Reply (text_reply ''NOT RESOLVED'')) gke_executor gcs_executor region fresh_world)
     = Inr \<lparr>status = ''RESOLVED'', findings = [''NOT RESOLVED''], actions_taken = [],
            solution = Some ''NOT RESOLVED'', suggested_specialist = Some ''linux_agent''\<rparr>"
    by (simp add: run_agent_loop_def gcp_run_def safe_send_reply gcp_loop.simps max_steps_def
        text_reply_def marker_not_resolved gcp_outcome_def Let_def)
  have 2: "fst (linux_troubleshoot (\<lambda>n. Reply (text_reply ''NOT RESOLVED'')) executor context fresh_world)
     = Inr \<lparr>status = ''RESOLVED'', findings = [''NOT RESOLVED''], actions_taken = [],
            solution = Some ''NOT RESOLVED'', suggested_specialist = None\<rparr>"
    by (simp add: linux_troubleshoot_def linux_run_def safe_send_reply linux_loop.simps max_steps_def
        text_reply_def marker_not_resolved linux_outcome_def linux_part_def Let_def)
  have 3: "parse_validation_status ''NOT RESOLVED'' = ''FAILED''"
    by (simp add: parse_validation_status_def upper_def upper_char_def Let_def)
  show ?thesis using 1 2 3 by blast
qed


section \<open>Properties of the deterministic compute sub-protocol\<close>

lemma add_finding_fields [simp]:
  "status (add_finding f out) = status out"
  "solution (add_finding f out) = solution out"
  "suggested_specialist (add_finding f out) = suggested_specialist out"
  "actions_taken (add_finding f out) = actions_taken out"
  "findings (add_finding f out) = findings out @ [f]"
  by (simp_all add: add_finding_def)

lemma add_action_fields [simp]:
  "status (add_action a out) = status out"
  "solution (add_action a out) = solution out"
  "suggested_specialist (add_action a out) = suggested_specialist out"
  "actions_taken (add_action a out) = actions_taken out @ [a]"
  "findings (add_action a out) = findings out"
  by (simp_all add: add_action_def)

lemma gce_create_rule_fields:
  "status (fst (snd (gce_create_rule ex allowed b a rule port f network (fixed, out, w)))) = status out \<and>
   solution (fst (snd (gce_create_rule ex allowed b a rule port f network (fixed, out, w)))) = solution out \<and>
   suggested_specialist (fst (snd (gce_create_rule ex allowed b a rule port f network (fixed, out, w))))
     = suggested_specialist out"
  by (simp add: gce_create_rule_def execute_def Let_def)

lemma gce_handoff_coherent: "outcome_coherent (gce_handoff out)"
  by (simp add: gce_handoff_def outcome_coherent_def)

lemma gce_health_check_coherent: "outcome_coherent (fst (gce_health_check curl ip out w))"
  by (simp add: gce_health_check_def Let_def outcome_coherent_def gce_handoff_def split: sum.splits)

lemma gce_firewall_coherent: "outcome_coherent (fst (gce_firewall ex curl vm_name zone ip out w))"
proof -
  have "outcome_coherent (fst (case st3 of (firewall_fixed, out2, w2) \<Rightarrow>
           if firewall_fixed then
             (out2\<lparr>status := ''RESOLVED'',
                   solution := Some ''Created firewall rules to allow access (SSH/HTTP/HTTPS)'',
                   suggested_specialist := Some ''linux_agent''\<rparr>, w2)
           else if c then gce_health_check curl ip out2 w2
           else (gce_handoff out2, w2)))" for st3 c
    by (cases st3) (simp add: gce_health_check_coherent gce_handoff_coherent, simp add: outcome_coherent_def)
  then show ?thesis
    by (simp add: gce_firewall_def Let_def execute_def gce_handoff_coherent split: prod.splits)
qed

lemma gce_stopped_coherent:
  "solution out = None \<Longrightarrow> suggested_specialist out = None \<Longrightarrow>
   outcome_coherent (fst (gce_stopped ex vm_name zone st out w))"
  by (simp add: gce_stopped_def execute_def Let_def outcome_coherent_def)

lemma gce_assign_ip_coherent:
  "solution out = None \<Longrightarrow> suggested_specialist out = None \<Longrightarrow>
   outcome_coherent (fst (gce_assign_ip ex vm_name zone out w))"
  by (simp add: gce_assign_ip_def execute_def Let_def outcome_coherent_def)

lemma handle_gce_coherent: "outcome_coherent (fst (handle_gce ex curl ctx w))"
  by (simp add: handle_gce_def execute_def Let_def gce_stopped_coherent gce_assign_ip_coherent
      gce_firewall_coherent split: pyval.splits)
     (simp add: outcome_coherent_def)

lemma handle_gce_stopped_example:
  "fst (handle_gce stopped_executor curl_ok web_context fresh_world) =
     \<lparr>status = ''NEEDS_HANDOFF'',
      findings = [''VM Status: TERMINATED'', ''CRITICAL: VM is TERMINATED!'',
                  ''VM has been started. Need to re-check state after boot.''],
      actions_taken = [''Started VM web-1''],
      solution = Some ''Started VM web-1. Please re-discover to check external IP and continue diagnosis.'',
      suggested_specialist = Some ''discovery_agent''\<rparr>"
  by (simp add: handle_gce_def gce_stopped_def execute_def stopped_executor_def web_context_def
      fresh_world_def instance_command_def dict_get_def dict_get_default_def add_finding_def
      add_action_def py_str_def Let_def)

lemma handle_gce_blocked_example:
  "handle_gce blocked_executor curl_ok web_context fresh_world =
     (\<lparr>status = ''RESOLVED'',
       findings = [''VM Status: RUNNING'', ''VM is RUNNING with external IP: 34.1.2.3'',
                   ''FIREWALL BLOCKING SSH (Port 22)! SSH BLOCKED'',
                   ''Attempting to create allow-ssh firewall rule...'',
                   ''SUCCESS: created'',
                   ''FIREWALL BLOCKING HTTP! HTTP: BLOCKED, HTTPS: allowed'',
                   ''Attempting to create allow-http firewall rule...'',
                   ''SUCCESS: created''],
       actions_taken = [''Created firewall rule: allow-ssh'', ''Created firewall rule: allow-http''],
       solution = Some ''Created firewall rules to allow access (SSH/HTTP/HTTPS)'',
       suggested_specialist = Some ''linux_agent''\<rparr>,
      fresh_world\<lparr>executed :=
        [(''gce'', instance_command ''get_instance_info'' (PStr ''web-1'') (PStr ''us-central1-a'')),
         (''gce'', instance_command ''check_firewall_rules'' (PStr ''web-1'') (PStr ''us-central1-a'')),
         (''gce'', firewall_rule_command ''allow-ssh'' ''22'' (PStr ''default'')),
         (''gce'', firewall_rule_command ''allow-http'' ''80'' (PStr ''default''))]\<rparr>)"
  by (simp add: handle_gce_def gce_firewall_def gce_create_rule_def execute_def blocked_executor_def
      web_context_def fresh_world_def instance_command_def firewall_rule_command_def dict_get_def
      dict_get_default_def add_finding_def add_action_def py_str_def strip_def is_space_def Let_def)

text \<open>
  C5, as the code has it. For a running instance with an external address whose firewall
  allows neither SSH nor HTTP but allows HTTPS, \<open>_handle_gce\<close> issues exactly four adapter
  commands: the instance query, the firewall check, and the creation of \<open>allow-ssh\<close>
  (port 22) and of \<open>allow-http\<close> (port 80), and none for port 443. When at least one of
  the two creations succeeds the outcome is \<open>RESOLVED\<close> with a solution, and the suggested
  specialist is \<open>linux_agent\<close>; when both succeed the actions taken are the two created
  rules; when neither succeeds the incident is handed off to \<open>linux_agent\<close> with no action
  and no solution.
\<close>

theorem blocked_ports_create_two_rules:
  assumes ctx: "dict_get_default ctx ''resource_name'' (PStr []) = vm_name" "truthy vm_name"
      "dict_get_default ctx ''zone'' (PStr []) = zone" "truthy zone"
      "dict_get ctx ''external_ip'' = PStr ip" "ip \<noteq> ''None''" "strip ip \<noteq> []"
    and info: "gce_executor (length (executed w)) (instance_command ''get_instance_info'' vm_name zone)
        = status_result"
      "dict_get status_result ''status'' = PStr ''SUCCESS''"
      "dict_get_default status_result ''instance_status'' (PStr ''UNKNOWN'') = PStr ''RUNNING''"
    and fw: "gce_executor (Suc (length (executed w))) (instance_command ''check_firewall_rules'' vm_name zone)
        = fw_result"
      "dict_get fw_result ''status'' = PStr ''SUCCESS''"
      "\<not> truthy (dict_get_default fw_result ''ssh_allowed'' (PBool False))"
      "\<not> truthy (dict_get_default fw_result ''http_allowed'' (PBool False))"
      "truthy (dict_get_default fw_result ''https_allowed'' (PBool False))"
      "dict_get_default fw_result ''network'' (PStr ''default'') = network"
    and ssh: "gce_executor (Suc (Suc (length (executed w)))) (firewall_rule_command ''allow-ssh'' ''22'' network)
        = ssh_result"
    and http: "gce_executor (Suc (Suc (Suc (length (executed w))))) (firewall_rule_command ''allow-http'' ''80'' network)
        = http_result"
  shows "executed (snd (handle_gce gce_executor curl ctx w)) =
       executed w @
         [(''gce'', instance_command ''get_instance_info'' vm_name zone),
          (''gce'', instance_command ''check_firewall_rules'' vm_name zone),
          (''gce'', firewall_rule_command ''allow-ssh'' ''22'' network),
          (''gce'', firewall_rule_command ''allow-http'' ''80'' network)] \<and>
     (dict_get ssh_result ''status'' = PStr ''SUCCESS'' \<or> dict_get http_result ''status'' = PStr ''SUCCESS'' \<longrightarrow>
        status (fst (handle_gce gce_executor curl ctx w)) = ''RESOLVED'' \<and>
        solution (fst (handle_gce gce_executor curl ctx w))
          = Some ''Created firewall rules to allow access (SSH/HTTP/HTTPS)'' \<and>
        suggested_specialist (fst (handle_gce gce_executor curl ctx w)) = Some ''linux_agent'') \<and>
     (dict_get ssh_result ''status'' = PStr ''SUCCESS'' \<and> dict_get http_result ''status'' = PStr ''SUCCESS'' \<longrightarrow>
        actions_taken (fst (handle_gce gce_executor curl ctx w))
          = [''Created firewall rule: allow-ssh'', ''Created firewall rule: allow-http'']) \<and>
     (dict_get ssh_result ''status'' \<noteq> PStr ''SUCCESS'' \<and> dict_get http_result ''status'' \<noteq> PStr ''SUCCESS'' \<longrightarrow>
        status (fst (handle_gce gce_executor curl ctx w)) = ''NEEDS_HANDOFF'' \<and>
        actions_taken (fst (handle_gce gce_executor curl ctx w)) = [] \<and>
        solution (fst (handle_gce gce_executor curl ctx w)) = None \<and>
        suggested_specialist (fst (handle_gce gce_executor curl ctx w)) = Some ''linux_agent'')"
proof -
  have ip: "ip \<noteq> []" using ctx(7) by (auto simp: strip_def)
  have run: "handle_gce gce_executor curl ctx w =
      gce_firewall gce_executor curl vm_name zone ip
        (add_finding ''VM Status: RUNNING''
           \<lparr>status = ''INVESTIGATING'', findings = [], actions_taken = [], solution = None,
            suggested_specialist = None\<rparr>)
        (w\<lparr>executed := executed w @ [(''gce'', instance_command ''get_instance_info'' vm_name zone)]\<rparr>)"
    using ctx info ip by (simp add: handle_gce_def execute_def Let_def py_str_def)
  show ?thesis
    unfolding run
    using fw ssh http
    by (simp add: gce_firewall_def gce_create_rule_def execute_def Let_def gce_handoff_def)
qed

theorem blocked_ports_create_two_rules_witness:
  "executed (snd (handle_gce blocked_executor curl_ok web_context fresh_world)) =
     [(''gce'', instance_command ''get_instance_info'' (PStr ''web-1'') (PStr ''us-central1-a'')),
      (''gce'', instance_command ''check_firewall_rules'' (PStr ''web-1'') (PStr ''us-central1-a'')),
      (''gce'', firewall_rule_command ''allow-ssh'' ''22'' (PStr ''default'')),
      (''gce'', firewall_rule_command ''allow-http'' ''80'' (PStr ''default''))] \<and>
   status (fst (handle_gce blocked_executor curl_ok web_context fresh_world)) = ''RESOLVED'' \<and>
   solution (fst (handle_gce blocked_executor curl_ok web_context fresh_world))
     = Some ''Created firewall rules to allow access (SSH/HTTP/HTTPS)'' \<and>
   suggested_specialist (fst (handle_gce blocked_executor curl_ok web_context fresh_world))
     = Some ''linux_agent'' \<and>
   actions_taken (fst (handle_gce blocked_executor curl_ok web_context fresh_world))
     = [''Created firewall rule: allow-ssh'', ''Created firewall rule: allow-http'']"
proof -
  have e: "executed fresh_world = []" by (simp add: fresh_world_def)
  have c: "dict_get_default web_context ''resource_name'' (PStr []) = PStr ''web-1''"
    "truthy (PStr ''web-1'')"
    "dict_get_default web_context ''zone'' (PStr []) = PStr ''us-central1-a''"
    "truthy (PStr ''us-central1-a'')"
    "dict_get web_context ''external_ip'' = PStr ''34.1.2.3''"
    "''34.1.2.3'' \<noteq> ''None''" "strip ''34.1.2.3'' \<noteq> []"
    by (simp_all add: web_context_def dict_get_def dict_get_default_def strip_def is_space_def)
  let ?info = "[(''status'', PStr ''SUCCESS''), (''instance_status'', PStr ''RUNNING'')]"
  let ?fw = "[(''status'', PStr ''SUCCESS''), (''network'', PStr ''default''),
           (''ssh_allowed'', PBool False), (''http_allowed'', PBool False),
           (''https_allowed'', PBool True)]"
  let ?ok = "[(''status'', PStr ''SUCCESS''), (''message'', PStr ''created'')]"
  have i: "blocked_executor (length (executed fresh_world))
        (instance_command ''get_instance_info'' (PStr ''web-1'') (PStr ''us-central1-a'')) = ?info"
    "dict_get ?info ''status'' = PStr ''SUCCESS''"
    "dict_get_default ?info ''instance_status'' (PStr ''UNKNOWN'') = PStr ''RUNNING''"
    by (simp_all add: blocked_executor_def instance_command_def dict_get_def dict_get_default_def)
  have f: "blocked_executor (Suc (length (executed fresh_world)))
        (instance_command ''check_firewall_rules'' (PStr ''web-1'') (PStr ''us-central1-a'')) = ?fw"
    "dict_get ?fw ''status'' = PStr ''SUCCESS''"
    "\<not> truthy (dict_get_default ?fw ''ssh_allowed'' (PBool False))"
    "\<not> truthy (dict_get_default ?fw ''http_allowed'' (PBool False))"
    "truthy (dict_get_default ?fw ''https_allowed'' (PBool False))"
    "dict_get_default ?fw ''network'' (PStr ''default'') = PStr ''default''"
    by (simp_all add: blocked_executor_def instance_command_def dict_get_def dict_get_default_def)
  have s: "blocked_executor (Suc (Suc (length (executed fresh_world))))
        (firewall_rule_command ''allow-ssh'' ''22'' (PStr ''default'')) = ?ok"
    by (simp add: blocked_executor_def firewall_rule_command_def dict_get_def)
  have h: "blocked_executor (Suc (Suc (Suc (length (executed fresh_world)))))
        (firewall_rule_command ''allow-http'' ''80'' (PStr ''default'')) = ?ok"
    by (simp add: blocked_executor_def firewall_rule_command_def dict_get_def)
  have ok: "dict_get ?ok ''status'' = PStr ''SUCCESS''" by (simp add: dict_get_def)
  from blocked_ports_create_two_rules [OF c i f s h, of curl_ok] ok e
  show ?thesis by simp
qed

text \<open>
  The claim as stated leaves the suggested specialist unset on this path. The code sets it:
  with both rules created the outcome is \<open>RESOLVED\<close> and names \<open>linux_agent\<close>.
\<close>

theorem blocked_ports_suggest_linux_agent_counterexample:
  "status (fst (handle_gce blocked_executor curl_ok web_context fresh_world)) = ''RESOLVED'' \<and>
   actions_taken (fst (handle_gce blocked_executor curl_ok web_context fresh_world))
     = [''Created firewall rule: allow-ssh'', ''Created firewall rule: allow-http''] \<and>
   suggested_specialist (fst (handle_gce blocked_executor curl_ok web_context fresh_world))
     = Some ''linux_agent''"
  by (simp add: handle_gce_blocked_example)

section \<open>The outcome invariant\<close>

lemma marker_fixed: "resolution_marker ''The service has been fixed''"
  by (simp add: resolution_marker_def lower_def lower_char_def)

lemma run_agent_loop_fixed_example:
  "run_agent_loop fixed_chat success_executor success_executor (PStr ''us-central1'') fresh_world =
     (Inr \<lparr>status = ''RESOLVED'', findings = [''The service has been fixed''], actions_taken = [],
            solution = Some ''The service has been fixed'', suggested_specialist = Some ''linux_agent''\<rparr>,
      fresh_world\<lparr>sent := 1, trace := [Sleep 2, SendMessage 0]\<rparr>)"
  by (simp add: run_agent_loop_def gcp_run_def fixed_chat_def safe_send_reply gcp_loop.simps
      max_steps_def text_reply_def marker_fixed gcp_outcome_def fresh_world_def Let_def)

lemma linux_troubleshoot_fixed_example:
  "linux_troubleshoot fixed_chat success_executor web_context fresh_world =
     (Inr \<lparr>status = ''RESOLVED'', findings = [''The service has been fixed''], actions_taken = [],
            solution = Some ''The service has been fixed'', suggested_specialist = None\<rparr>,
      fresh_world\<lparr>sent := 1, trace := [Sleep 2, SendMessage 0]\<rparr>)"
  by (simp add: linux_troubleshoot_def linux_run_def fixed_chat_def safe_send_reply linux_loop.simps
      max_steps_def text_reply_def marker_fixed linux_outcome_def linux_part_def fresh_world_def Let_def)

lemma gcp_troubleshoot_blocked_example:
  "gcp_troubleshoot fixed_chat blocked_executor success_executor success_executor curl_ok
       (PStr ''us-central1'') web_context fresh_world =
     (Inr (fst (handle_gce blocked_executor curl_ok web_context fresh_world)),
      snd (handle_gce blocked_executor curl_ok web_context fresh_world))"
  by (simp add: gcp_troubleshoot_def web_context_def dict_get_default_def Let_def split: prod.splits)

text \<open>
  C1, as the code has it. Every outcome that the cloud platform agent returns (from the
  deterministic sub-protocol or from its tool loop) is coherent: resolved implies a
  solution, and a solution or a suggested specialist implies resolved or handed off. An
  outcome of its tool loop is resolved or handed off, and has a solution exactly when it
  is resolved. An outcome of the Linux specialist has a suggested specialist exactly when
  it is handed off, and a solution only when it is resolved.
\<close>

theorem specialist_outcomes_coherent:
  "(gcp_troubleshoot chat gce_executor gke_executor gcs_executor curl region ctx w = (Inr out, w') \<longrightarrow>
      outcome_coherent out) \<and>
   (run_agent_loop chat gke_executor gcs_executor region w = (Inr out, w') \<longrightarrow>
      (solution out \<noteq> None) = (status out = ''RESOLVED'') \<and>
      (status out = ''RESOLVED'' \<or> status out = ''NEEDS_HANDOFF'')) \<and>
   (linux_troubleshoot chat executor ctx w = (Inr out, w') \<longrightarrow>
      (suggested_specialist out \<noteq> None) = (status out = ''NEEDS_HANDOFF'') \<and>
      (solution out \<noteq> None \<longrightarrow> status out = ''RESOLVED''))"
proof -
  have loop: "(solution out \<noteq> None) = (status out = ''RESOLVED'') \<and>
      (status out = ''RESOLVED'' \<or> status out = ''NEEDS_HANDOFF'') \<and> outcome_coherent out"
    if "run_agent_loop chat gke_executor gcs_executor region w = (Inr out, w')" for out w'
  proof -
    let ?s = "snd (gcp_run chat gke_executor gcs_executor region w)"
    from that have out: "out = gcp_outcome ?s"
      by (auto simp: run_agent_loop_def Let_def split: option.splits)
    have "resolved_has_text ?s" using gcp_run_bounds by blast
    then show ?thesis
      unfolding out by (auto simp: gcp_outcome_def resolved_has_text_def outcome_coherent_def)
  qed
  have 1: "gcp_troubleshoot chat gce_executor gke_executor gcs_executor curl region ctx w = (Inr out, w') \<longrightarrow>
      outcome_coherent out"
    using loop handle_gce_coherent [of gce_executor curl ctx w]
    by (auto simp: gcp_troubleshoot_def Let_def split: if_splits prod.splits)
  have 3: "linux_troubleshoot chat executor ctx w = (Inr out, w') \<longrightarrow>
      (suggested_specialist out \<noteq> None) = (status out = ''NEEDS_HANDOFF'') \<and>
      (solution out \<noteq> None \<longrightarrow> status out = ''RESOLVED'')"
    by (auto simp: linux_troubleshoot_def linux_outcome_def Let_def split: option.splits if_splits)
  show ?thesis using 1 3 loop by blast
qed

theorem specialist_outcomes_coherent_witness:
  "outcome_coherent (fst (handle_gce blocked_executor curl_ok web_context fresh_world)) \<and>
   (\<exists>out w'. run_agent_loop fixed_chat success_executor success_executor (PStr ''us-central1'')
        fresh_world = (Inr out, w') \<and>
      status out = ''RESOLVED'' \<and> (solution out \<noteq> None) = (status out = ''RESOLVED'')) \<and>
   (\<exists>out w'. linux_troubleshoot fixed_chat success_executor web_context fresh_world = (Inr out, w') \<and>
      status out = ''RESOLVED'' \<and>
      (suggested_specialist out \<noteq> None) = (status out = ''NEEDS_HANDOFF''))"
proof -
  note t1 = specialist_outcomes_coherent [where chat = fixed_chat and gce_executor = blocked_executor
      and gke_executor = success_executor and gcs_executor = success_executor and curl = curl_ok
      and region = "PStr ''us-central1''" and ctx = web_context and w = fresh_world
      and out = "fst (handle_gce blocked_executor curl_ok web_context fresh_world)"
      and w' = "snd (handle_gce blocked_executor curl_ok web_context fresh_world)"]
  note t2 = specialist_outcomes_coherent [where chat = fixed_chat
      and gke_executor = success_executor and gcs_executor = success_executor
      and region = "PStr ''us-central1''" and w = fresh_world
      and out = "\<lparr>status = ''RESOLVED'', findings = [''The service has been fixed''], actions_taken = [],
            solution = Some ''The service has been fixed'', suggested_specialist = Some ''linux_agent''\<rparr>"
      and w' = "fresh_world\<lparr>sent := 1, trace := [Sleep 2, SendMessage 0]\<rparr>"]
  note t3 = specialist_outcomes_coherent [where chat = fixed_chat and executor = success_executor
      and ctx = web_context and w = fresh_world
      and out = "\<lparr>status = ''RESOLVED'', findings = [''The service has been fixed''], actions_taken = [],
            solution = Some ''The service has been fixed'', suggested_specialist = None\<rparr>"
      and w' = "fresh_world\<lparr>sent := 1, trace := [Sleep 2, SendMessage 0]\<rparr>"]
  have 1: "outcome_coherent (fst (handle_gce blocked_executor curl_ok web_context fresh_world))"
    using t1 gcp_troubleshoot_blocked_example by blast
  have 2: "\<exists>out w'. run_agent_loop fixed_chat success_executor success_executor (PStr ''us-central1'')
        fresh_world = (Inr out, w') \<and>
      status out = ''RESOLVED'' \<and> (solution out \<noteq> None) = (status out = ''RESOLVED'')"
    using t2 run_agent_loop_fixed_example by simp
  have 3: "\<exists>out w'. linux_troubleshoot fixed_chat success_executor web_context fresh_world = (Inr out, w') \<and>
      status out = ''RESOLVED'' \<and>
      (suggested_specialist out \<noteq> None) = (status out = ''NEEDS_HANDOFF'')"
    using t3 linux_troubleshoot_fixed_example by simp
  show ?thesis using 1 2 3 by blast
qed

text \<open>
  The invariant as stated fails on the code: after starting a stopped instance the
  sub-protocol hands off to the discovery agent and sets a solution, so a solution is
  present in an outcome that is not resolved.
\<close>

theorem stopped_vm_handoff_has_solution_counterexample:
  "\<not> outcome_invariant (fst (handle_gce stopped_executor curl_ok web_context fresh_world))"
  by (simp add: handle_gce_stopped_example outcome_invariant_def)


section \<open>Properties of the adapters\<close>

lemma gke_dry_run_all:
  "gke_execute_command True backend command = (dry_run_result (dict_get command ''action'') command, [])"
  by (simp add: gke_execute_command_def)

lemma gce_dry_run_write:
  "dict_get command ''action'' \<in> set (map PStr write_actions) \<Longrightarrow>
   gce_execute_command True backend command = (dry_run_result (dict_get command ''action'') command, [])"
  by (simp add: gce_execute_command_def)

lemma gce_dry_run_read:
  "dict_get command ''action'' \<notin> set (map PStr write_actions) \<Longrightarrow>
   gce_execute_command True backend command = gce_execute_command False backend command"
  by (simp add: gce_execute_command_def Let_def)

lemma gcs_dry_run_read:
  "dict_get command ''action'' \<in> set [PStr ''get_bucket_metadata'', PStr ''list_bucket_contents'', PStr ''get_bucket_iam''] \<Longrightarrow>
   gcs_execute_command True backend command = gcs_execute_command False backend command"
  by (auto simp: gcs_execute_command_def Let_def)

lemma gcs_dry_run_write:
  "dict_get command ''action'' \<notin> set [PStr ''get_bucket_metadata'', PStr ''list_bucket_contents'', PStr ''get_bucket_iam''] \<Longrightarrow>
   gcs_execute_command True backend command = (dry_run_result (dict_get command ''action'') command, [])"
  by (simp add: gcs_execute_command_def)

text \<open>
  C2, on the code. With \<open>dry_run\<close> set, the compute adapter and the storage adapter run
  a read-only action as they do without it (lemmas \<open>gce_dry_run_read\<close>,
  \<open>gcs_dry_run_read\<close>) and answer \<open>DRY_RUN\<close> to the others without touching the backend.
  The Kubernetes adapter answers \<open>DRY_RUN\<close> to every action: the read-only
  \<open>get_pod_details\<close> and \<open>get_pod_logs\<close> are not executed, although the same commands
  reach the backend when \<open>dry_run\<close> is off.
\<close>

theorem gke_dry_run_blocks_read_only:
  "gke_execute_command True backend (pod_command ''get_pod_details'') =
     ([(''status'', PStr ''DRY_RUN''), (''message'', PStr ''Would execute: get_pod_details''),
       (''command'', PDict (pod_command ''get_pod_details''))], []) \<and>
   gke_execute_command True backend (pod_command ''get_pod_logs'') =
     ([(''status'', PStr ''DRY_RUN''), (''message'', PStr ''Would execute: get_pod_logs''),
       (''command'', PDict (pod_command ''get_pod_logs''))], []) \<and>
   gke_execute_command False backend (pod_command ''get_pod_details'') =
     invoke backend ''_get_pod_details''
       [PStr ''us-central1'', PStr ''prod'', PStr ''default'', PStr ''web-0''] [] \<and>
   gce_execute_command True backend
       [(''action'', PStr ''get_instance_info''), (''instance_name'', PStr ''web-1''),
        (''zone'', PStr ''us-central1-a'')] =
     invoke backend ''_get_instance_info'' [PStr ''us-central1-a'', PStr ''web-1'']
       ''Execution failed: '' \<and>
   gcs_execute_command True backend
       [(''action'', PStr ''get_bucket_metadata''), (''bucket_name'', PStr ''assets'')] =
     invoke backend ''_get_bucket_metadata'' [PStr ''assets''] []"
  by (simp add: gke_execute_command_def gce_execute_command_def gcs_execute_command_def
      pod_command_def dict_get_def dry_run_result_def py_str_def write_actions_def)

section \<open>Properties of the validation closure\<close>

lemma validate_fix_result:
  assumes v: "validate_fix chat tools wait w = Some (Inr d, w1)"
  shows "\<exists>t. d = [(''status'', PStr (parse_validation_status t)),
                   (''details'', PStr (if t \<noteq> [] then t else ''No validation details provided.''))]"
proof -
  define w0 where "w0 = (if wait > 0 then w\<lparr>trace := trace w @ [Sleep (nat wait)]\<rparr> else w)"
  define w' where "w' = w0\<lparr>sent := Suc (sent w0), trace := trace w0 @ [SendMessage (sent w0)]\<rparr>"
  have vf: "validate_fix chat tools wait w =
     (case chat (sent w0) of
           Raises msg \<Rightarrow> Some (Inl (OracleError msg), w')
         | Reply r \<Rightarrow>
             (case validate_loop chat tools r w' of
                None \<Rightarrow> None
              | Some (Inl e, w2) \<Rightarrow> Some (Inl e, w2)
              | Some (Inr r', w2) \<Rightarrow>
                  (case response_text r' of
                     None \<Rightarrow> Some (Inl AttributeError, w2)
                   | Some validation_text \<Rightarrow>
                       Some (Inr [(''status'', PStr (parse_validation_status validation_text)),
                                  (''details'', PStr (if validation_text \<noteq> [] then validation_text
                                                     else ''No validation details provided.''))],
                             w2))))"
    unfolding validate_fix_def w0_def w'_def Let_def ..
  show ?thesis
  proof (cases "chat (sent w0)")
    case (Raises msg)
    with v vf show ?thesis by simp
  next
    case (Reply r)
    show ?thesis
    proof (cases "validate_loop chat tools r w'")
      case None
      with v vf Reply show ?thesis by simp
    next
      case (Some res)
      obtain x w2 where res: "res = (x, w2)" by (cases res)
      show ?thesis
      proof (cases x)
        case (Inl e)
        with v vf Reply Some res show ?thesis by simp
      next
        case (Inr r')
        show ?thesis
        proof (cases "response_text r'")
          case None
          with v vf Reply Some res Inr show ?thesis by simp
        next
          case (Some t)
          with v vf Reply \<open>validate_loop chat tools r w' = Some res\<close> res Inr
          have "d = [(''status'', PStr (parse_validation_status t)),
                   (''details'', PStr (if t \<noteq> [] then t else ''No validation details provided.''))]"
            by simp
          then show ?thesis by blast
        qed
      qed
    qed
  qed
qed

lemma parse_validation_status_cases:
  "parse_validation_status t = ''RESOLVED'' \<or> parse_validation_status t = ''FAILED'' \<or>
   parse_validation_status t = ''INCONCLUSIVE''"
  by (simp add: parse_validation_status_def Let_def)

lemma conclude_validation_not_validated:
  assumes "\<not> truthy (dict_get_default (validation_result_of r) ''validated'' (PBool False))"
    and "dict_get (validation_result_of r) ''status'' \<noteq> PStr ''RESOLVED''"
  shows "conclude_validation r incident ctx specialist now memory =
     (''VALIDATION FAILED - Fix did not resolve the issue'' @ [CHR 0x0A] @ ''Reason: '' @
        py_str (dict_get_default (validation_result_of r) ''reason'' (PStr ''Unknown'')), memory)"
  using assms by (simp add: conclude_validation_def Let_def)

lemma memories_add_incident:
  "memories (snd (add_incident now syms diag sol specs cost conf st)) =
     memories st @
       [\<lparr>mem_id = ''mem-'' @ str_int (epoch_seconds now), timestamp = now,
         symptoms = syms, diagnosis = diag, mem_solution = sol, specialists = specs,
         cost_impact = cost, confidence = conf, success_count = 1,
         failure_count = 0, last_used = None\<rparr>]"
  by (simp add: add_incident_def save_def Let_def)

lemma conclude_validation_validated:
  assumes "truthy (dict_get_default (validation_result_of r) ''validated'' (PBool False)) \<or>
     dict_get (validation_result_of r) ''status'' = PStr ''RESOLVED''"
  shows "startswith (fst (conclude_validation r incident ctx specialist now memory)) ''VALIDATION PASSED'' \<and>
     length (memories (snd (conclude_validation r incident ctx specialist now memory)))
       = Suc (length (memories memory)) \<and>
     butlast (memories (snd (conclude_validation r incident ctx specialist now memory))) = memories memory \<and>
     confidence (last (memories (snd (conclude_validation r incident ctx specialist now memory)))) = 0.85 \<and>
     symptoms (last (memories (snd (conclude_validation r incident ctx specialist now memory)))) = [incident]"
proof -
  have cv: "conclude_validation r incident ctx specialist now memory =
     (''VALIDATION PASSED - Fix confirmed working!'' @ [CHR 0x0A] @ ''Details: '' @
        py_str (dict_get_default (validation_result_of r) ''reason'' (PStr ''All checks passed'')),
      snd (add_incident now [incident] (''Fixed by '' @ specialist)
             (actions_taken_text incident ctx specialist) [specialist] 0 0.85 memory))"
    using assms unfolding conclude_validation_def Let_def by (simp only: if_True)
  show ?thesis unfolding cv by (simp add: memories_add_incident)
qed

lemma validate_fix_inconclusive_example:
  "validate_fix inconclusive_chat no_tool_failure 5 fresh_world =
     Some (Inr [(''status'', PStr ''INCONCLUSIVE''), (''details'', PStr ''Unable to reach the endpoint'')],
           fresh_world\<lparr>sent := 1, trace := [Sleep 5, SendMessage 0]\<rparr>)"
proof -
  have p: "parse_validation_status ''Unable to reach the endpoint'' = ''INCONCLUSIVE''"
    by (simp add: parse_validation_status_def upper_def upper_char_def Let_def)
  have l: "validate_loop inconclusive_chat no_tool_failure (text_reply ''Unable to reach the endpoint'') w
      = Some (Inr (text_reply ''Unable to reach the endpoint''), w)" for w
    by (subst validate_loop.simps) (simp add: text_reply_def)
  have c: "inconclusive_chat n = Reply (text_reply ''Unable to reach the endpoint'')" for n
    by (simp add: inconclusive_chat_def)
  have t: "response_text (text_reply ''Unable to reach the endpoint'') = Some ''Unable to reach the endpoint''"
    by (simp add: text_reply_def)
  show ?thesis
    by (simp add: validate_fix_def c l t p fresh_world_def Let_def)
qed

lemma validate_fix_rate_limited_example:
  "validate_fix rate_limited_chat no_tool_failure 5 fresh_world =
     Some (Inl (OracleError ''429 Resource exhausted''),
           fresh_world\<lparr>sent := 1, trace := [Sleep 5, SendMessage 0]\<rparr>)"
  by (simp add: validate_fix_def rate_limited_chat_def fresh_world_def Let_def)

text \<open>
  C7, as the code has it. A validation that returns gives one of the statuses \<open>RESOLVED\<close>,
  \<open>FAILED\<close>, \<open>INCONCLUSIVE\<close>; unless it is \<open>RESOLVED\<close>, \<open>validation_agent\<close> reports
  "VALIDATION FAILED" and leaves the memory store as it is. A validation that returns
  \<open>RESOLVED\<close> is reported as passed and adds one entry (confidence 0.85) to the memory;
  so is, through the \<open>except\<close> clause, a validation that raises. In general the memory
  is untouched whenever the result has neither a truthy \<open>validated\<close> flag nor the status
  \<open>RESOLVED\<close>.
\<close>

theorem validation_gate:
  "(validate_fix chat tools 5 w = Some (Inr d, w1) \<and> dict_get d ''status'' \<noteq> PStr ''RESOLVED'' \<longrightarrow>
      validation_agent chat tools incident ctx specialist now memory w =
        Some (''VALIDATION FAILED - Fix did not resolve the issue'' @ [CHR 0x0A] @ ''Reason: Unknown'',
              memory, w1)) \<and>
   (validate_fix chat tools 5 w = Some (Inr d, w1) \<longrightarrow>
      dict_get d ''status'' \<in> set [PStr ''RESOLVED'', PStr ''FAILED'', PStr ''INCONCLUSIVE'']) \<and>
   ((validate_fix chat tools 5 w = Some (Inr d, w1) \<and> dict_get d ''status'' = PStr ''RESOLVED'') \<or>
    validate_fix chat tools 5 w = Some (Inl e, w1) \<longrightarrow>
      (\<exists>reply memory'.
         validation_agent chat tools incident ctx specialist now memory w = Some (reply, memory', w1) \<and>
         startswith reply ''VALIDATION PASSED'' \<and>
         length (memories memory') = Suc (length (memories memory)) \<and>
         butlast (memories memory') = memories memory \<and>
         confidence (last (memories memory')) = 0.85 \<and>
         symptoms (last (memories memory')) = [incident])) \<and>
   (\<not> truthy (dict_get_default (validation_result_of r) ''validated'' (PBool False)) \<and>
      dict_get (validation_result_of r) ''status'' \<noteq> PStr ''RESOLVED'' \<longrightarrow>
      snd (conclude_validation r incident ctx specialist now memory) = memory \<and>
      startswith (fst (conclude_validation r incident ctx specialist now memory)) ''VALIDATION FAILED'')"
proof -
  have a: "validation_agent chat tools incident ctx specialist now memory w =
        Some (''VALIDATION FAILED - Fix did not resolve the issue'' @ [CHR 0x0A] @ ''Reason: Unknown'',
              memory, w1)"
    if v: "validate_fix chat tools 5 w = Some (Inr d, w1)" and n: "dict_get d ''status'' \<noteq> PStr ''RESOLVED''"
  proof -
    from validate_fix_result[OF v] obtain t where
      d: "d = [(''status'', PStr (parse_validation_status t)),
                   (''details'', PStr (if t \<noteq> [] then t else ''No validation details provided.''))]"
      by blast
    have r: "validation_result_of (Inr d) = d" by (simp add: validation_result_of_def)
    have nv: "\<not> truthy (dict_get_default d ''validated'' (PBool False))"
      and rs: "dict_get_default d ''reason'' (PStr ''Unknown'') = PStr ''Unknown''"
      by (simp_all add: d dict_get_default_def)
    have "conclude_validation (Inr d) incident ctx specialist now memory =
      (''VALIDATION FAILED - Fix did not resolve the issue'' @ [CHR 0x0A] @ ''Reason: '' @
        py_str (dict_get_default (validation_result_of (Inr d)) ''reason'' (PStr ''Unknown'')), memory)"
      by (rule conclude_validation_not_validated) (simp_all only: r nv n not_False_eq_True)
    then have "conclude_validation (Inr d) incident ctx specialist now memory =
      (''VALIDATION FAILED - Fix did not resolve the issue'' @ [CHR 0x0A] @ ''Reason: Unknown'', memory)"
      by (simp add: r rs py_str_def)
    then show ?thesis using v by (simp add: validation_agent_def)
  qed
  have b: "dict_get d ''status'' \<in> set [PStr ''RESOLVED'', PStr ''FAILED'', PStr ''INCONCLUSIVE'']"
    if v: "validate_fix chat tools 5 w = Some (Inr d, w1)"
  proof -
    from validate_fix_result[OF v] obtain t where
      d: "d = [(''status'', PStr (parse_validation_status t)),
                   (''details'', PStr (if t \<noteq> [] then t else ''No validation details provided.''))]"
      by blast
    have "dict_get d ''status'' = PStr (parse_validation_status t)"
      by (simp add: d dict_get_def)
    then show ?thesis using parse_validation_status_cases [of t] by auto
  qed
  have c: "\<exists>reply memory'.
         validation_agent chat tools incident ctx specialist now memory w = Some (reply, memory', w1) \<and>
         startswith reply ''VALIDATION PASSED'' \<and>
         length (memories memory') = Suc (length (memories memory)) \<and>
         butlast (memories memory') = memories memory \<and>
         confidence (last (memories memory')) = 0.85 \<and>
         symptoms (last (memories memory')) = [incident]"
    if v: "validate_fix chat tools 5 w = Some (x, w1)"
      and val: "truthy (dict_get_default (validation_result_of x) ''validated'' (PBool False)) \<or>
       dict_get (validation_result_of x) ''status'' = PStr ''RESOLVED''" for x
  proof -
    obtain reply memory' where cv: "conclude_validation x incident ctx specialist now memory = (reply, memory')"
      by (cases "conclude_validation x incident ctx specialist now memory")
    have va: "validation_agent chat tools incident ctx specialist now memory w = Some (reply, memory', w1)"
      using v cv by (simp add: validation_agent_def)
    from conclude_validation_validated[OF val, of incident ctx specialist now memory]
    show ?thesis unfolding cv fst_conv snd_conv using va by blast
  qed
  have c1: "validate_fix chat tools 5 w = Some (Inr d, w1) \<and> dict_get d ''status'' = PStr ''RESOLVED'' \<longrightarrow>
      (\<exists>reply memory'.
         validation_agent chat tools incident ctx specialist now memory w = Some (reply, memory', w1) \<and>
         startswith reply ''VALIDATION PASSED'' \<and>
         length (memories memory') = Suc (length (memories memory)) \<and>
         butlast (memories memory') = memories memory \<and>
         confidence (last (memories memory')) = 0.85 \<and>
         symptoms (last (memories memory')) = [incident])"
    using c [of "Inr d"] by (simp add: validation_result_of_def)
  have c2: "validate_fix chat tools 5 w = Some (Inl e, w1) \<longrightarrow>
      (\<exists>reply memory'.
         validation_agent chat tools incident ctx specialist now memory w = Some (reply, memory', w1) \<and>
         startswith reply ''VALIDATION PASSED'' \<and>
         length (memories memory') = Suc (length (memories memory)) \<and>
         butlast (memories memory') = memories memory \<and>
         confidence (last (memories memory')) = 0.85 \<and>
         symptoms (last (memories memory')) = [incident])"
    using c [of "Inl e"] by (simp add: validation_result_of_def dict_get_default_def)
  have e: "\<not> truthy (dict_get_default (validation_result_of r) ''validated'' (PBool False)) \<and>
      dict_get (validation_result_of r) ''status'' \<noteq> PStr ''RESOLVED'' \<longrightarrow>
      snd (conclude_validation r incident ctx specialist now memory) = memory \<and>
      startswith (fst (conclude_validation r incident ctx specialist now memory)) ''VALIDATION FAILED''"
    using conclude_validation_not_validated [of r incident ctx specialist now memory] by auto
  show ?thesis using a b c1 c2 e by blast
qed

theorem validation_gate_witness:
  "validation_agent inconclusive_chat no_tool_failure ''Web server down'' web_context ''linux_agent''
      1700000000000000 (example_store []) fresh_world =
     Some (''VALIDATION FAILED - Fix did not resolve the issue'' @ [CHR 0x0A] @ ''Reason: Unknown'',
           example_store [], fresh_world\<lparr>sent := 1, trace := [Sleep 5, SendMessage 0]\<rparr>) \<and>
   (\<exists>reply memory'.
      validation_agent rate_limited_chat no_tool_failure ''Web server down'' web_context ''linux_agent''
        1700000000000000 (example_store []) fresh_world =
        Some (reply, memory', fresh_world\<lparr>sent := 1, trace := [Sleep 5, SendMessage 0]\<rparr>) \<and>
      startswith reply ''VALIDATION PASSED'' \<and> length (memories memory') = 1)"
proof -
  note t = validation_gate [where chat = inconclusive_chat and tools = no_tool_failure and w = fresh_world
      and d = "[(''status'', PStr ''INCONCLUSIVE''), (''details'', PStr ''Unable to reach the endpoint'')]"
      and ?w1.0 = "fresh_world\<lparr>sent := 1, trace := [Sleep 5, SendMessage 0]\<rparr>"
      and incident = "''Web server down''" and ctx = web_context and specialist = "''linux_agent''"
      and now = 1700000000000000 and memory = "example_store []"]
  note u = validation_gate [where chat = rate_limited_chat and tools = no_tool_failure and w = fresh_world
      and e = "OracleError ''429 Resource exhausted''"
      and ?w1.0 = "fresh_world\<lparr>sent := 1, trace := [Sleep 5, SendMessage 0]\<rparr>"
      and incident = "''Web server down''" and ctx = web_context and specialist = "''linux_agent''"
      and now = 1700000000000000 and memory = "example_store []"]
  have s: "dict_get [(''status'', PStr ''INCONCLUSIVE''), (''details'', PStr ''Unable to reach the endpoint'')]
      ''status'' \<noteq> PStr ''RESOLVED''"
    by (simp add: dict_get_def)
  have 1: "validation_agent inconclusive_chat no_tool_failure ''Web server down'' web_context ''linux_agent''
      1700000000000000 (example_store []) fresh_world =
     Some (''VALIDATION FAILED - Fix did not resolve the issue'' @ [CHR 0x0A] @ ''Reason: Unknown'',
           example_store [], fresh_world\<lparr>sent := 1, trace := [Sleep 5, SendMessage 0]\<rparr>)"
    using t validate_fix_inconclusive_example s by blast
  have m: "length (memories (example_store [])) = 0" by (simp add: example_store_def)
  have 2: "\<exists>reply memory'.
      validation_agent rate_limited_chat no_tool_failure ''Web server down'' web_context ''linux_agent''
        1700000000000000 (example_store []) fresh_world =
        Some (reply, memory', fresh_world\<lparr>sent := 1, trace := [Sleep 5, SendMessage 0]\<rparr>) \<and>
      startswith reply ''VALIDATION PASSED'' \<and> length (memories memory') = 1"
  proof -
    from u validate_fix_rate_limited_example
    obtain reply memory' where
      "validation_agent rate_limited_chat no_tool_failure ''Web server down'' web_context ''linux_agent''
        1700000000000000 (example_store []) fresh_world =
        Some (reply, memory', fresh_world\<lparr>sent := 1, trace := [Sleep 5, SendMessage 0]\<rparr>)"
      "startswith reply ''VALIDATION PASSED''"
      "length (memories memory') = Suc (length (memories (example_store [])))"
      by blast
    with m show ?thesis by auto
  qed
  show ?thesis using 1 2 by blast
qed

text \<open>
  The claim as stated says that a validation that errors before it probes is not treated
  as success. On the code it is: when the first message to the validator is rate-limited,
  \<open>validate_fix\<close> raises, and \<open>validation_agent\<close> answers "VALIDATION PASSED" and stores
  the incident.
\<close>

theorem validation_error_passes_counterexample:
  "map_option fst
     (validation_agent rate_limited_chat no_tool_failure ''Web server down'' web_context ''linux_agent''
        1700000000000000 (example_store []) fresh_world)
     = Some (''VALIDATION PASSED - Fix confirmed working!'' @ [CHR 0x0A] @
             ''Details: Validation skipped due to error'') \<and>
   map_option (\<lambda>r. map symptoms (memories (fst (snd r))))
     (validation_agent rate_limited_chat no_tool_failure ''Web server down'' web_context ''linux_agent''
        1700000000000000 (example_store []) fresh_world)
     = Some [[''Web server down'']]"
  by (simp add: validation_agent_def validate_fix_rate_limited_example conclude_validation_def
      validation_result_of_def dict_get_def dict_get_default_def py_str_def memories_add_incident
      example_store_def Let_def split: prod.splits)

end
